theory Spec2Isabelle
  imports Main "HOL-Library.AList" "HOL-Library.Code_Target_Nat"
begin

section \<open>JavaScript strings\<close>

text \<open>
  A JavaScript string is a sequence of UTF-16 code units. A code unit is modelled as a
  natural number below 65536; a byte of a \<^verbatim>\<open>Buffer\<close> as a natural number below 256.
  \<open>str\<close> embeds an ASCII literal of the source.
\<close>

type_synonym jschar = nat
type_synonym jsstring = "jschar list"
type_synonym byte = nat

definition str :: "string \<Rightarrow> jsstring" where
  "str s = map of_char s"

text \<open>\<^verbatim>\<open>Array.prototype.join\<close> on an array of strings.\<close>

fun join :: "jsstring \<Rightarrow> jsstring list \<Rightarrow> jsstring" where
  "join sep [] = []"
| "join sep [x] = x"
| "join sep (x # y # ys) = x @ sep @ join sep (y # ys)"

section \<open>Platform functions used by the source\<close>

subsection \<open>String methods\<close>

text \<open>\<^verbatim>\<open>String.prototype.split\<close> with a one-character separator: never an empty array.\<close>

fun split :: "jschar \<Rightarrow> jsstring \<Rightarrow> jsstring list" where
  "split sep [] = [[]]"
| "split sep (c # cs) =
     (if c = sep then [] # split sep cs
      else (case split sep cs of [] \<Rightarrow> [[c]] | p # ps \<Rightarrow> (c # p) # ps))"

text \<open>\<^verbatim>\<open>replace(/x/g, 'y')\<close> for single characters \<open>x\<close> and \<open>y\<close>.\<close>

definition replaceAll :: "jschar \<Rightarrow> jschar \<Rightarrow> jsstring \<Rightarrow> jsstring" where
  "replaceAll x y s = map (\<lambda>c. if c = x then y else c) s"

text \<open>\<^verbatim>\<open>padEnd(targetLength, fill)\<close> with a one-character fill string.\<close>

definition padEnd :: "jsstring \<Rightarrow> nat \<Rightarrow> jschar \<Rightarrow> jsstring" where
  "padEnd s targetLength fill = s @ replicate (targetLength - length s) fill"

definition startsWith :: "jsstring \<Rightarrow> jsstring \<Rightarrow> bool" where
  "startsWith s prefix = (take (length prefix) s = prefix)"

definition substring :: "jsstring \<Rightarrow> nat \<Rightarrow> jsstring" where
  "substring s start = drop start s"

text \<open>
  \<^verbatim>\<open>String.prototype.trim\<close> strips the code units of ECMAScript's WhiteSpace and
  LineTerminator productions from both ends.
\<close>

definition isWhiteSpace :: "jschar \<Rightarrow> bool" where
  "isWhiteSpace c =
     (c = 0x9 \<or> c = 0xA \<or> c = 0xB \<or> c = 0xC \<or> c = 0xD \<or> c = 0x20 \<or> c = 0xA0
      \<or> c = 0x1680 \<or> (0x2000 \<le> c \<and> c \<le> 0x200A) \<or> c = 0x2028 \<or> c = 0x2029
      \<or> c = 0x202F \<or> c = 0x205F \<or> c = 0x3000 \<or> c = 0xFEFF)"

definition trim :: "jsstring \<Rightarrow> jsstring" where
  "trim s = rev (dropWhile isWhiteSpace (rev (dropWhile isWhiteSpace s)))"

subsection \<open>\<^verbatim>\<open>Buffer.from(s, 'base64')\<close>\<close>

text \<open>
  Node's decoder is lenient and never throws on a string: it reads each code unit as a
  byte, accepts the standard and the URL-safe alphabet alike, skips every other
  character, stops at the first \<^verbatim>\<open>=\<close>, and drops a trailing group of fewer than two
  sextets.
\<close>

definition unbase64 :: "byte \<Rightarrow> nat option" where
  "unbase64 c =
     (if 65 \<le> c \<and> c \<le> 90 then Some (c - 65)
      else if 97 \<le> c \<and> c \<le> 122 then Some (c - 71)
      else if 48 \<le> c \<and> c \<le> 57 then Some (c + 4)
      else if c = 43 \<or> c = 45 then Some 62
      else if c = 47 \<or> c = 95 then Some 63
      else None)"

fun sextets_to_bytes :: "nat list \<Rightarrow> byte list" where
  "sextets_to_bytes (a # b # c # d # rest) =
     (a * 4 + b div 16) # ((b mod 16) * 16 + c div 4) # ((c mod 4) * 64 + d)
       # sextets_to_bytes rest"
| "sextets_to_bytes [a, b, c] = [a * 4 + b div 16, (b mod 16) * 16 + c div 4]"
| "sextets_to_bytes [a, b] = [a * 4 + b div 16]"
| "sextets_to_bytes _ = []"

definition Buffer_from_base64 :: "jsstring \<Rightarrow> byte list" where
  "Buffer_from_base64 s =
     sextets_to_bytes
       (List.map_filter (\<lambda>c. unbase64 (c mod 256)) (takeWhile (\<lambda>c. c mod 256 \<noteq> 61) s))"

subsection \<open>\<^verbatim>\<open>buffer.toString('utf-8')\<close>\<close>

text \<open>
  Decoding never throws: every maximal ill-formed part of the input becomes one
  U+FFFD. The decoder state is the code point under construction, the number of
  continuation bytes needed and seen, and the range allowed for the next byte.
  No byte-order mark is stripped. Code points above U+FFFF become surrogate pairs.
\<close>

datatype utf8_state = Utf8 nat nat nat nat nat

definition utf8_init :: utf8_state where
  "utf8_init = Utf8 0 0 0 0x80 0xBF"

definition utf8_lead :: "byte \<Rightarrow> nat list \<times> utf8_state" where
  "utf8_lead b =
     (if b \<le> 0x7F then ([b], utf8_init)
      else if 0xC2 \<le> b \<and> b \<le> 0xDF then ([], Utf8 (b mod 32) 1 0 0x80 0xBF)
      else if 0xE0 \<le> b \<and> b \<le> 0xEF then
        ([], Utf8 (b mod 16) 2 0 (if b = 0xE0 then 0xA0 else 0x80) (if b = 0xED then 0x9F else 0xBF))
      else if 0xF0 \<le> b \<and> b \<le> 0xF4 then
        ([], Utf8 (b mod 8) 3 0 (if b = 0xF0 then 0x90 else 0x80) (if b = 0xF4 then 0x8F else 0xBF))
      else ([0xFFFD], utf8_init))"

fun utf8_decode :: "utf8_state \<Rightarrow> byte list \<Rightarrow> nat list" where
  "utf8_decode (Utf8 cp needed seen lower upper) [] = (if needed \<noteq> 0 then [0xFFFD] else [])"
| "utf8_decode (Utf8 cp needed seen lower upper) (b # bs) =
     (if needed = 0 then fst (utf8_lead b) @ utf8_decode (snd (utf8_lead b)) bs
      else if b < lower \<or> upper < b then
        0xFFFD # fst (utf8_lead b) @ utf8_decode (snd (utf8_lead b)) bs
      else if seen + 1 \<noteq> needed then
        utf8_decode (Utf8 (cp * 64 + b mod 64) needed (seen + 1) 0x80 0xBF) bs
      else (cp * 64 + b mod 64) # utf8_decode utf8_init bs)"

definition utf16_units :: "nat \<Rightarrow> jsstring" where
  "utf16_units cp =
     (if cp < 0x10000 then [cp]
      else [0xD800 + (cp - 0x10000) div 1024, 0xDC00 + (cp - 0x10000) mod 1024])"

definition toString_utf8 :: "byte list \<Rightarrow> jsstring" where
  "toString_utf8 bytes = concat (map utf16_units (utf8_decode utf8_init bytes))"

subsection \<open>Numbers\<close>

text \<open>
  A JavaScript number is an IEEE 754 double. The ones \<^verbatim>\<open>parseToken\<close> can meet are the
  finite doubles, the negative zero and the two infinities: \<^verbatim>\<open>JSON.parse\<close> yields no NaN
  and the source only multiplies by 1000. \<open>Finite n k\<close> is the double of exact value
  \<open>n / 2 ^ k\<close>, written in lowest terms (\<open>k = 0\<close> or \<open>n\<close> odd); the positive zero is
  \<open>Finite 0 0\<close>.
\<close>

datatype number = Finite int nat | NegativeZero | PositiveInfinity | NegativeInfinity

text \<open>The number of binary digits of \<open>n\<close>.\<close>

fun bitlength :: "nat \<Rightarrow> nat" where
  "bitlength n = (if n = 0 then 0 else Suc (bitlength (n div 2)))"

declare bitlength.simps [simp del]

text \<open>\<open>n / 2 ^ k\<close> in lowest terms.\<close>

fun reduce :: "int \<Rightarrow> nat \<Rightarrow> number" where
  "reduce n 0 = Finite n 0"
| "reduce n (Suc k) = (if even n then reduce (n div 2) k else Finite n (Suc k))"

text \<open>The integer nearest to \<open>a / b\<close>, the even one of two that are equally near.\<close>

definition round_half_even :: "nat \<Rightarrow> nat \<Rightarrow> nat" where
  "round_half_even a b =
     (let f = a div b; r = a mod b
      in if 2 * r < b then f else if b < 2 * r then f + 1 else if even f then f else f + 1)"

text \<open>
  The double nearest to the fraction \<open>a / b\<close> (\<open>b > 0\<close>), negated when \<open>neg\<close>: round to
  nearest, ties to even, with 53 significant bits, a least exponent of -1074 for the
  last bit, and overflow to infinity from \<open>2 ^ 1024\<close>. \<open>E\<close> is the exponent of the leading
  bit of \<open>a / b\<close> and \<open>u\<close> that of the last bit kept.
\<close>

definition to_double :: "bool \<Rightarrow> nat \<Rightarrow> nat \<Rightarrow> number" where
  "to_double neg a b =
     (if a = 0 then (if neg then NegativeZero else Finite 0 0)
      else
        let g = int (bitlength a) - int (bitlength b);
            E = (if b * 2 ^ nat g \<le> a * 2 ^ nat (- g) then g else g - 1);
            u = max (E - 52) (- 1074);
            n = round_half_even (a * 2 ^ nat (- u)) (b * 2 ^ nat u)
        in if 1023 < E \<or> (E = 1023 \<and> 9007199254740992 \<le> n) then
             (if neg then NegativeInfinity else PositiveInfinity)
           else if n = 0 then (if neg then NegativeZero else Finite 0 0)
           else if 0 \<le> u then Finite ((if neg then - int n else int n) * 2 ^ nat u) 0
           else reduce (if neg then - int n else int n) (nat (- u)))"

text \<open>\<^verbatim>\<open>x * 1000\<close>.\<close>

fun times1000 :: "number \<Rightarrow> number" where
  "times1000 (Finite n k) = to_double (n < 0) (nat \<bar>n\<bar> * 1000) (2 ^ k)"
| "times1000 NegativeZero = NegativeZero"
| "times1000 PositiveInfinity = PositiveInfinity"
| "times1000 NegativeInfinity = NegativeInfinity"

text \<open>
  \<^verbatim>\<open>x < now\<close>, where \<open>now\<close> is \<^verbatim>\<open>Math.floor(Date.now() / 1000)\<close>, a whole number of
  seconds.
\<close>

fun number_less :: "number \<Rightarrow> int \<Rightarrow> bool" where
  "number_less (Finite n k) now = (n < now * 2 ^ k)"
| "number_less NegativeZero now = (0 < now)"
| "number_less PositiveInfinity now = False"
| "number_less NegativeInfinity now = True"

text \<open>
  Whether \<^verbatim>\<open>new Date(t)\<close> holds a time value: \<open>t\<close> is finite and at most 8.64e15
  milliseconds from the epoch. \<^verbatim>\<open>toISOString\<close> throws a \<^verbatim>\<open>RangeError\<close> on a date that
  holds none.
\<close>

fun validTime :: "number \<Rightarrow> bool" where
  "validTime (Finite n k) = (\<bar>n\<bar> \<le> 8640000000000000 * 2 ^ k)"
| "validTime NegativeZero = True"
| "validTime PositiveInfinity = False"
| "validTime NegativeInfinity = False"

subsection \<open>\<^verbatim>\<open>JSON.parse\<close>\<close>

text \<open>
  The value \<^verbatim>\<open>JSON.parse\<close> returns. An object is the list of its own properties in
  insertion order, each key once.
\<close>

datatype json =
    JNull
  | JBool bool
  | JNumber number
  | JString jsstring
  | JArray "json list"
  | JObject "(jsstring \<times> json) list"

datatype token =
    TLBrace | TRBrace | TLBracket | TRBracket | TColon | TComma
  | TString jsstring | TNumber number | TTrue | TFalse | TNull

text \<open>
  The scanner reads the text one code unit at a time. Its state says what it is in the
  middle of: nothing, a string (with the characters read so far, last first), an escape
  sequence, a literal name, or one of the parts of a number.
\<close>

datatype scan_state =
    LStart
  | LString jsstring
  | LEscape jsstring
  | LUnicode jsstring nat nat
  | LLiteral jsstring token
  | LMinus
  | LZero bool
  | LInt bool nat
  | LDot bool nat
  | LFrac bool nat nat
  | LExp bool nat nat
  | LExpSign bool nat nat bool
  | LExpDigits bool nat nat bool nat

definition isDigit :: "jschar \<Rightarrow> bool" where
  "isDigit c = (48 \<le> c \<and> c \<le> 57)"

definition hexValue :: "jschar \<Rightarrow> nat option" where
  "hexValue c =
     (if 48 \<le> c \<and> c \<le> 57 then Some (c - 48)
      else if 65 \<le> c \<and> c \<le> 70 then Some (c - 55)
      else if 97 \<le> c \<and> c \<le> 102 then Some (c - 87)
      else None)"

text \<open>
  The number of a literal with sign \<open>neg\<close>, digits \<open>m\<close> of which \<open>k\<close> follow the point,
  and exponent \<open>x\<close> with sign \<open>eneg\<close>: the double nearest to the value written.
\<close>

definition number_token :: "bool \<Rightarrow> nat \<Rightarrow> nat \<Rightarrow> bool \<Rightarrow> nat \<Rightarrow> token" where
  "number_token neg m k eneg x =
     (let e = (if eneg then - int x else int x) - int k
      in TNumber (if 0 \<le> e then to_double neg (m * 10 ^ nat e) 1
                  else to_double neg m (10 ^ nat (- e))))"

text \<open>A code unit met between tokens.\<close>

definition scan_start :: "jschar \<Rightarrow> (token list \<times> scan_state) option" where
  "scan_start c =
     (if c = 9 \<or> c = 10 \<or> c = 13 \<or> c = 32 then Some ([], LStart)
      else if c = 123 then Some ([TLBrace], LStart)
      else if c = 125 then Some ([TRBrace], LStart)
      else if c = 91 then Some ([TLBracket], LStart)
      else if c = 93 then Some ([TRBracket], LStart)
      else if c = 58 then Some ([TColon], LStart)
      else if c = 44 then Some ([TComma], LStart)
      else if c = 34 then Some ([], LString [])
      else if c = 45 then Some ([], LMinus)
      else if c = 48 then Some ([], LZero False)
      else if isDigit c then Some ([], LInt False (c - 48))
      else if c = 116 then Some ([], LLiteral (str ''rue'') TTrue)
      else if c = 102 then Some ([], LLiteral (str ''alse'') TFalse)
      else if c = 110 then Some ([], LLiteral (str ''ull'') TNull)
      else None)"

text \<open>The code unit that ends a number is read again as the start of what follows.\<close>

definition scan_after :: "token \<Rightarrow> jschar \<Rightarrow> (token list \<times> scan_state) option" where
  "scan_after t c =
     (case scan_start c of None \<Rightarrow> None | Some (ts, st) \<Rightarrow> Some (t # ts, st))"

fun scan_step :: "scan_state \<Rightarrow> jschar \<Rightarrow> (token list \<times> scan_state) option" where
  "scan_step LStart c = scan_start c"
| "scan_step (LString acc) c =
     (if c = 34 then Some ([TString (rev acc)], LStart)
      else if c = 92 then Some ([], LEscape acc)
      else if c < 32 then None
      else Some ([], LString (c # acc)))"
| "scan_step (LEscape acc) c =
     (if c = 34 \<or> c = 92 \<or> c = 47 then Some ([], LString (c # acc))
      else if c = 98 then Some ([], LString (8 # acc))
      else if c = 102 then Some ([], LString (12 # acc))
      else if c = 110 then Some ([], LString (10 # acc))
      else if c = 114 then Some ([], LString (13 # acc))
      else if c = 116 then Some ([], LString (9 # acc))
      else if c = 117 then Some ([], LUnicode acc 0 0)
      else None)"
| "scan_step (LUnicode acc n v) c =
     (case hexValue c of
        None \<Rightarrow> None
      | Some h \<Rightarrow>
          if n + 1 = 4 then Some ([], LString ((v * 16 + h) # acc))
          else Some ([], LUnicode acc (n + 1) (v * 16 + h)))"
| "scan_step (LLiteral [] t) c = None"
| "scan_step (LLiteral (x # xs) t) c =
     (if c \<noteq> x then None
      else if xs = [] then Some ([t], LStart)
      else Some ([], LLiteral xs t))"
| "scan_step LMinus c =
     (if c = 48 then Some ([], LZero True)
      else if isDigit c then Some ([], LInt True (c - 48))
      else None)"
| "scan_step (LZero neg) c =
     (if c = 46 then Some ([], LDot neg 0)
      else if c = 101 \<or> c = 69 then Some ([], LExp neg 0 0)
      else scan_after (number_token neg 0 0 False 0) c)"
| "scan_step (LInt neg m) c =
     (if isDigit c then Some ([], LInt neg (m * 10 + (c - 48)))
      else if c = 46 then Some ([], LDot neg m)
      else if c = 101 \<or> c = 69 then Some ([], LExp neg m 0)
      else scan_after (number_token neg m 0 False 0) c)"
| "scan_step (LDot neg m) c =
     (if isDigit c then Some ([], LFrac neg (m * 10 + (c - 48)) 1) else None)"
| "scan_step (LFrac neg m k) c =
     (if isDigit c then Some ([], LFrac neg (m * 10 + (c - 48)) (k + 1))
      else if c = 101 \<or> c = 69 then Some ([], LExp neg m k)
      else scan_after (number_token neg m k False 0) c)"
| "scan_step (LExp neg m k) c =
     (if c = 43 then Some ([], LExpSign neg m k False)
      else if c = 45 then Some ([], LExpSign neg m k True)
      else if isDigit c then Some ([], LExpDigits neg m k False (c - 48))
      else None)"
| "scan_step (LExpSign neg m k eneg) c =
     (if isDigit c then Some ([], LExpDigits neg m k eneg (c - 48)) else None)"
| "scan_step (LExpDigits neg m k eneg x) c =
     (if isDigit c then Some ([], LExpDigits neg m k eneg (x * 10 + (c - 48)))
      else scan_after (number_token neg m k eneg x) c)"

text \<open>At the end of the text only a finished token may be open.\<close>

fun scan_finish :: "scan_state \<Rightarrow> token list option" where
  "scan_finish LStart = Some []"
| "scan_finish (LZero neg) = Some [number_token neg 0 0 False 0]"
| "scan_finish (LInt neg m) = Some [number_token neg m 0 False 0]"
| "scan_finish (LFrac neg m k) = Some [number_token neg m k False 0]"
| "scan_finish (LExpDigits neg m k eneg x) = Some [number_token neg m k eneg x]"
| "scan_finish _ = None"

fun scan :: "scan_state \<Rightarrow> jsstring \<Rightarrow> token list option" where
  "scan st [] = scan_finish st"
| "scan st (c # cs) =
     (case scan_step st c of
        None \<Rightarrow> None
      | Some (ts, st') \<Rightarrow> (case scan st' cs of None \<Rightarrow> None | Some ts' \<Rightarrow> Some (ts @ ts')))"

text \<open>
  The parser reads the tokens one at a time. Its state says what may come next; the
  stack holds the arrays (elements read so far, last first) and objects (members read so
  far and the key whose value is being read) that enclose the current position.
  A repeated key keeps its first position and takes the last value.
\<close>

datatype frame =
    InArray "json list"
  | InObject "(jsstring \<times> json) list" jsstring

datatype parse_state =
    Value
  | ArrayFirst
  | ArrayNext "json list"
  | ObjectFirst
  | ObjectKey "(jsstring \<times> json) list"
  | ObjectColon "(jsstring \<times> json) list" jsstring
  | ObjectNext "(jsstring \<times> json) list"
  | Done json

fun complete :: "json \<Rightarrow> frame list \<Rightarrow> parse_state \<times> frame list" where
  "complete v [] = (Done v, [])"
| "complete v (InArray xs # stack) = (ArrayNext (v # xs), stack)"
| "complete v (InObject kvs k # stack) = (ObjectNext (AList.update k v kvs), stack)"

fun value_start :: "token \<Rightarrow> frame list \<Rightarrow> (parse_state \<times> frame list) option" where
  "value_start TNull stack = Some (complete JNull stack)"
| "value_start TTrue stack = Some (complete (JBool True) stack)"
| "value_start TFalse stack = Some (complete (JBool False) stack)"
| "value_start (TNumber d) stack = Some (complete (JNumber d) stack)"
| "value_start (TString s) stack = Some (complete (JString s) stack)"
| "value_start TLBracket stack = Some (ArrayFirst, stack)"
| "value_start TLBrace stack = Some (ObjectFirst, stack)"
| "value_start _ stack = None"

fun parse_step :: "parse_state \<Rightarrow> frame list \<Rightarrow> token \<Rightarrow> (parse_state \<times> frame list) option" where
  "parse_step Value stack t = value_start t stack"
| "parse_step ArrayFirst stack t =
     (if t = TRBracket then Some (complete (JArray []) stack)
      else value_start t (InArray [] # stack))"
| "parse_step (ArrayNext xs) stack t =
     (if t = TComma then Some (Value, InArray xs # stack)
      else if t = TRBracket then Some (complete (JArray (rev xs)) stack)
      else None)"
| "parse_step ObjectFirst stack t =
     (case t of
        TRBrace \<Rightarrow> Some (complete (JObject []) stack)
      | TString k \<Rightarrow> Some (ObjectColon [] k, stack)
      | _ \<Rightarrow> None)"
| "parse_step (ObjectKey kvs) stack t =
     (case t of TString k \<Rightarrow> Some (ObjectColon kvs k, stack) | _ \<Rightarrow> None)"
| "parse_step (ObjectColon kvs k) stack t =
     (if t = TColon then Some (Value, InObject kvs k # stack) else None)"
| "parse_step (ObjectNext kvs) stack t =
     (if t = TComma then Some (ObjectKey kvs, stack)
      else if t = TRBrace then Some (complete (JObject kvs) stack)
      else None)"
| "parse_step (Done v) stack t = None"

fun parse_tokens :: "parse_state \<Rightarrow> frame list \<Rightarrow> token list \<Rightarrow> json option" where
  "parse_tokens st stack [] = (case st of Done v \<Rightarrow> Some v | _ \<Rightarrow> None)"
| "parse_tokens st stack (t # ts) =
     (case parse_step st stack t of
        None \<Rightarrow> None
      | Some (st', stack') \<Rightarrow> parse_tokens st' stack' ts)"

text \<open>\<open>None\<close> stands for the \<^verbatim>\<open>SyntaxError\<close> thrown on a text that is not JSON.\<close>

definition JSON_parse :: "jsstring \<Rightarrow> json option" where
  "JSON_parse text =
     (case scan LStart text of None \<Rightarrow> None | Some ts \<Rightarrow> parse_tokens Value [] ts)"

subsection \<open>Operators on values\<close>

text \<open>
  A value read from a property is \<open>None\<close> when it is \<^verbatim>\<open>undefined\<close>. \<open>truthy\<close> is the
  conversion to boolean that \<^verbatim>\<open>!\<close> and \<^verbatim>\<open>if\<close> apply.
\<close>

fun typeof :: "json option \<Rightarrow> string" where
  "typeof None = ''undefined''"
| "typeof (Some JNull) = ''object''"
| "typeof (Some (JBool b)) = ''boolean''"
| "typeof (Some (JNumber d)) = ''number''"
| "typeof (Some (JString s)) = ''string''"
| "typeof (Some (JArray xs)) = ''object''"
| "typeof (Some (JObject kvs)) = ''object''"

fun truthy :: "json option \<Rightarrow> bool" where
  "truthy None = False"
| "truthy (Some JNull) = False"
| "truthy (Some (JBool b)) = b"
| "truthy (Some (JNumber d)) = (d \<noteq> Finite 0 0 \<and> d \<noteq> NegativeZero)"
| "truthy (Some (JString s)) = (s \<noteq> [])"
| "truthy (Some (JArray xs)) = True"
| "truthy (Some (JObject kvs)) = True"

text \<open>
  Reading a property \<^verbatim>\<open>claims.name\<close> of a parsed value that is an object or an array,
  for the names the source reads (\<^verbatim>\<open>sub\<close>, \<^verbatim>\<open>email\<close>, \<^verbatim>\<open>roles\<close>, \<^verbatim>\<open>exp\<close>, \<^verbatim>\<open>iat\<close>): an
  object has the property when it is one of its own, an array has none of these.
\<close>

fun property :: "json \<Rightarrow> jsstring \<Rightarrow> json option" where
  "property (JObject kvs) name = map_of kvs name"
| "property _ name = None"

text \<open>The characters of a value known to be a string.\<close>

fun stringOf :: "json option \<Rightarrow> jsstring" where
  "stringOf (Some (JString s)) = s"
| "stringOf _ = []"

section \<open>Data model\<close>

text \<open>\<^verbatim>\<open>models/user-claims.interface.ts\<close>: optional fields are \<open>None\<close> when undefined.\<close>

record UserClaims =
  sub :: jsstring
  email :: jsstring
  roles :: "jsstring list"
  exp :: "number option"
  iat :: "number option"

text \<open>
  What the source can throw, each with its message: its two exception classes, which
  extend \<^verbatim>\<open>HttpException\<close> with a response body of status code, error code and message,
  and the \<^verbatim>\<open>RangeError\<close> of \<^verbatim>\<open>Date.prototype.toISOString\<close>, which is no
  \<^verbatim>\<open>HttpException\<close> and has no response body of its own.
\<close>

datatype thrown =
    InvalidTokenException jsstring
  | InsufficientPermissionsException jsstring
  | RangeError jsstring

fun statusCode :: "thrown \<Rightarrow> nat option" where
  "statusCode (InvalidTokenException m) = Some 401"
| "statusCode (InsufficientPermissionsException m) = Some 403"
| "statusCode (RangeError m) = None"

fun error_code :: "thrown \<Rightarrow> string option" where
  "error_code (InvalidTokenException m) = Some ''INVALID_TOKEN''"
| "error_code (InsufficientPermissionsException m) = Some ''INSUFFICIENT_PERMISSIONS''"
| "error_code (RangeError m) = None"

fun message :: "thrown \<Rightarrow> jsstring" where
  "message (InvalidTokenException m) = m"
| "message (InsufficientPermissionsException m) = m"
| "message (RangeError m) = m"

text \<open>
  A call of the NestJS logger: its level and its message. The structured metadata object
  passed as second argument is left out.
\<close>

datatype log_level = Warn | Error | Log | Debug

type_synonym log_entry = "log_level \<times> string"

text \<open>
  The Express request, reduced to what the guards read and write: the value of
  \<^verbatim>\<open>request.headers?.authorization\<close> (\<open>None\<close> when undefined) and the slot
  \<^verbatim>\<open>request.user\<close> (\<open>None\<close> when unset).
\<close>

record request =
  authorization :: "jsstring option"
  user :: "UserClaims option"

section \<open>Token parsing\<close>

text \<open>
  The body of the \<^verbatim>\<open>try\<close> block of \<^verbatim>\<open>JwtParserService.parseToken\<close> that decodes the
  payload segment. None of its four calls throws on a string, so the \<^verbatim>\<open>catch\<close> block
  that follows it in the source is never entered and has no branch here.
\<close>

definition decodePayload :: "jsstring \<Rightarrow> jsstring" where
  "decodePayload payload =
     (let base64 = replaceAll 95 47 (replaceAll 45 43 payload);
          padded = padEnd base64 (length base64 + (4 - (length base64 mod 4)) mod 4) 61
      in toString_utf8 (Buffer_from_base64 padded))"

text \<open>
  The messages of the exceptions in \<^verbatim>\<open>parseToken\<close>, in the order of the source. The
  second is the message of the \<^verbatim>\<open>catch\<close> block that is never entered.
\<close>

definition msg_parts :: jsstring where
  "msg_parts = str ''JWT token must have exactly 3 parts separated by dots''"

definition msg_base64 :: jsstring where
  "msg_base64 = str ''JWT payload is not valid base64url encoding''"

definition msg_json :: jsstring where
  "msg_json = str ''JWT payload is not valid JSON''"

definition msg_object :: jsstring where
  "msg_object = str ''JWT payload must be an object''"

definition msg_sub :: jsstring where
  "msg_sub = str ''JWT token must contain a valid \"sub\" claim''"

definition msg_email :: jsstring where
  "msg_email = str ''JWT token must contain a valid \"email\" claim''"

text \<open>
  The roles of the payload and the warning logged for them: the \<^verbatim>\<open>roles\<close> array itself
  when every element is a string, the empty array otherwise.
\<close>

definition rolesOf :: "json \<Rightarrow> jsstring list \<times> log_entry list" where
  "rolesOf claims =
     (case property claims (str ''roles'') of
        None \<Rightarrow> ([], [])
      | Some (JArray rs) \<Rightarrow>
          if list_all (\<lambda>r. typeof (Some r) = ''string'') rs then (map (\<lambda>r. stringOf (Some r)) rs, [])
          else ([], [(Warn,
            ''Token contains invalid roles claim (non-string elements), defaulting to empty array'')])
      | Some _ \<Rightarrow>
          ([], [(Warn,
            ''Token contains invalid roles claim (not an array), defaulting to empty array'')]))"

text \<open>
  The expiry check. \<open>now\<close> is the clock in whole seconds. For a numeric \<^verbatim>\<open>exp\<close> below the
  clock the source formats \<^verbatim>\<open>new Date(claims.exp * 1000).toISOString()\<close> and then logs a
  warning; the formatting throws a \<^verbatim>\<open>RangeError\<close>, which nothing in \<^verbatim>\<open>parseToken\<close>
  catches, when the date holds no time value.
\<close>

definition expiryCheck :: "int \<Rightarrow> json \<Rightarrow> thrown + log_entry list" where
  "expiryCheck now claims =
     (case property claims (str ''exp'') of
        Some (JNumber d) \<Rightarrow>
          if number_less d now then
            if validTime (times1000 d)
            then Inr [(Warn, ''Token is expired but accepted in mock mode'')]
            else Inl (RangeError (str ''Invalid time value''))
          else Inr []
      | _ \<Rightarrow> Inr [])"

definition numberOf :: "json option \<Rightarrow> number option" where
  "numberOf v = (case v of Some (JNumber d) \<Rightarrow> Some d | _ \<Rightarrow> None)"

text \<open>
  \<^verbatim>\<open>JwtParserService.parseToken\<close>: the log written, and what is thrown or the claims
  returned.
\<close>

definition parseToken :: "int \<Rightarrow> jsstring \<Rightarrow> log_entry list \<times> (thrown + UserClaims)" where
  "parseToken now token =
     (let parts = split 46 token in
      if length parts \<noteq> 3 then
        ([(Warn, ''Token validation failed: invalid format (expected 3 parts)'')],
         Inl (InvalidTokenException msg_parts))
      else
        let payload = parts ! 1;
            decodedPayload = decodePayload payload
        in case JSON_parse decodedPayload of
             None \<Rightarrow>
               ([(Warn, ''Token validation failed: invalid JSON payload'')],
                Inl (InvalidTokenException msg_json))
           | Some parsedClaims \<Rightarrow>
               if \<not> truthy (Some parsedClaims) \<or> typeof (Some parsedClaims) \<noteq> ''object'' then
                 ([(Warn, ''Token validation failed: payload is not an object'')],
                  Inl (InvalidTokenException msg_object))
               else
                 let claims = parsedClaims;
                     claims_sub = property claims (str ''sub'');
                     claims_email = property claims (str ''email'')
                 in if \<not> truthy claims_sub \<or> typeof claims_sub \<noteq> ''string''
                       \<or> trim (stringOf claims_sub) = [] then
                      ([(Warn, ''Token validation failed: missing or invalid \"sub\" claim'')],
                       Inl (InvalidTokenException msg_sub))
                    else if \<not> truthy claims_email \<or> typeof claims_email \<noteq> ''string''
                       \<or> trim (stringOf claims_email) = [] then
                      ([(Warn, ''Token validation failed: missing or invalid \"email\" claim'')],
                       Inl (InvalidTokenException msg_email))
                    else
                      let (roles, rolesLog) = rolesOf claims in
                      case expiryCheck now claims of
                        Inl error \<Rightarrow> (rolesLog, Inl error)
                      | Inr expiryLog \<Rightarrow>
                          let userClaims =
                                \<lparr>sub = stringOf claims_sub,
                                 email = stringOf claims_email,
                                 roles = roles,
                                 exp = numberOf (property claims (str ''exp'')),
                                 iat = numberOf (property claims (str ''iat''))\<rparr>
                          in (rolesLog @ expiryLog @ [(Debug, ''Token parsed successfully'')],
                              Inr userClaims))"

section \<open>Authentication guard\<close>

text \<open>
  \<^verbatim>\<open>AuthGuard.canActivate\<close>: the request as the guard leaves it, the log written (the
  parser's entries included), and the exception thrown or the value returned.
\<close>

definition AuthGuard_canActivate ::
  "int \<Rightarrow> request \<Rightarrow> request \<times> log_entry list \<times> (thrown + bool)" where
  "AuthGuard_canActivate now req =
     (case authorization req of
        None \<Rightarrow>
          (req, [(Warn, ''Authentication failed: missing Authorization header'')],
           Inl (InvalidTokenException (str ''Missing Authorization header'')))
      | Some authHeader \<Rightarrow>
          if authHeader = [] then
            (req, [(Warn, ''Authentication failed: missing Authorization header'')],
             Inl (InvalidTokenException (str ''Missing Authorization header'')))
          else if \<not> startsWith authHeader (str ''Bearer '') then
            (req, [(Warn, ''Authentication failed: invalid Authorization header format'')],
             Inl (InvalidTokenException (str ''Authorization header must use Bearer scheme'')))
          else
            let token = trim (substring authHeader (length (str ''Bearer ''))) in
            if token = [] then
              (req, [(Warn, ''Authentication failed: empty token'')],
               Inl (InvalidTokenException (str ''Bearer token is empty'')))
            else
              (case parseToken now token of
                 (parserLog, Inl error) \<Rightarrow>
                   (req, parserLog @ [(Warn, ''Authentication failed: token parsing error'')],
                    Inl error)
               | (parserLog, Inr userClaims) \<Rightarrow>
                   (req\<lparr>user := Some userClaims\<rparr>,
                    parserLog @ [(Log, ''Authentication successful'')],
                    Inr True)))"

section \<open>Claims accessors\<close>

text \<open>
  \<^verbatim>\<open>UserClaimsService.getUserClaims\<close> and the helper \<^verbatim>\<open>GetUserClaims\<close>:
  \<^verbatim>\<open>request.user || null\<close>, with \<open>None\<close> for \<^verbatim>\<open>null\<close>.
\<close>

definition getUserClaims :: "request \<Rightarrow> UserClaims option" where
  "getUserClaims req = user req"

definition GetUserClaims :: "request \<Rightarrow> UserClaims option" where
  "GetUserClaims req = user req"

text \<open>
  The \<^verbatim>\<open>@User()\<close> parameter decorator. Its argument is a key of \<^verbatim>\<open>UserClaims\<close> or
  undefined; it yields the whole record, one field, or \<^verbatim>\<open>undefined\<close>.
\<close>

datatype claim_key = Key_sub | Key_email | Key_roles | Key_exp | Key_iat

datatype injected =
    Undefined
  | Claims UserClaims
  | String jsstring
  | Strings "jsstring list"
  | Number number

fun field :: "UserClaims \<Rightarrow> claim_key \<Rightarrow> injected" where
  "field u Key_sub = String (sub u)"
| "field u Key_email = String (email u)"
| "field u Key_roles = Strings (roles u)"
| "field u Key_exp = (case exp u of None \<Rightarrow> Undefined | Some d \<Rightarrow> Number d)"
| "field u Key_iat = (case iat u of None \<Rightarrow> Undefined | Some d \<Rightarrow> Number d)"

definition User :: "claim_key option \<Rightarrow> request \<Rightarrow> injected" where
  "User data req =
     (case data of
        Some key \<Rightarrow> (case user req of None \<Rightarrow> Undefined | Some u \<Rightarrow> field u key)
      | None \<Rightarrow> (case user req of None \<Rightarrow> Undefined | Some u \<Rightarrow> Claims u))"

section \<open>Role guards\<close>

text \<open>
  \<^verbatim>\<open>RequireRolesGuard.canActivate\<close>. The first argument is what the reflector returns
  for the route metadata: \<open>None\<close> when no \<^verbatim>\<open>@Roles\<close> decorator is present. The result
  is the log written and either the exception thrown or the value returned.
\<close>

definition RequireRolesGuard_canActivate ::
  "jsstring list option \<Rightarrow> request \<Rightarrow> log_entry list \<times> (thrown + bool)" where
  "RequireRolesGuard_canActivate reflected req =
    (case reflected of
       None \<Rightarrow> ([], Inr True)
     | Some requiredRoles \<Rightarrow>
        if length requiredRoles = 0
        then ([(Warn, ''RequireRolesGuard used with empty roles array'')], Inr True)
        else
          (case user req of
             None \<Rightarrow>
               ([(Error, ''RequireRolesGuard called without authenticated user'')],
                Inl (InsufficientPermissionsException
                       (str ''User must be authenticated to check roles'')))
           | Some u \<Rightarrow>
               let hasRequiredRole = list_ex (\<lambda>role. role \<in> set (roles u)) requiredRoles
               in if \<not> hasRequiredRole
                  then
                    let msg = str ''User lacks required role. Required one of: [''
                                @ join (str '', '') requiredRoles @ str '']''
                    in ([(Warn, ''Authorization failed: insufficient roles'')],
                        Inl (InsufficientPermissionsException msg))
                  else ([(Log, ''Authorization successful'')], Inr True)))"

text \<open>\<^verbatim>\<open>RequireAllRolesGuard.canActivate\<close>, with the same conventions.\<close>

definition RequireAllRolesGuard_canActivate ::
  "jsstring list option \<Rightarrow> request \<Rightarrow> log_entry list \<times> (thrown + bool)" where
  "RequireAllRolesGuard_canActivate reflected req =
    (case reflected of
       None \<Rightarrow> ([], Inr True)
     | Some requiredRoles \<Rightarrow>
        if length requiredRoles = 0
        then ([(Warn, ''RequireAllRolesGuard used with empty roles array'')], Inr True)
        else
          (case user req of
             None \<Rightarrow>
               ([(Error, ''RequireAllRolesGuard called without authenticated user'')],
                Inl (InsufficientPermissionsException
                       (str ''User must be authenticated to check roles'')))
           | Some u \<Rightarrow>
               let missingRoles = filter (\<lambda>role. \<not> role \<in> set (roles u)) requiredRoles
               in if length missingRoles > 0
                  then
                    let msg = str ''User lacks required roles. Missing: [''
                                @ join (str '', '') missingRoles @ str '']''
                    in ([(Warn, ''Authorization failed: missing required roles'')],
                        Inl (InsufficientPermissionsException msg))
                  else ([(Log, ''Authorization successful (all-of)'')], Inr True)))"

section \<open>Properties of token parsing\<close>

lemma trim_Nil: "trim [] = []"
  by (simp add: trim_def)

text \<open>
  The expiry check throws exactly for a numeric \<^verbatim>\<open>exp\<close> below the clock whose thousandfold
  is no time value of a date, and what it throws is the \<^verbatim>\<open>RangeError\<close>.
\<close>

lemma expiryCheck_throws:
  "expiryCheck now (JObject kvs) = Inl error \<longleftrightarrow>
     error = RangeError (str ''Invalid time value'')
     \<and> (\<exists>d. map_of kvs (str ''exp'') = Some (JNumber d)
              \<and> number_less d now \<and> \<not> validTime (times1000 d))"
  by (auto simp: expiryCheck_def split: option.splits json.splits)

lemma expiryCheck_thrown:
  "expiryCheck now claims = Inl error \<Longrightarrow> error = RangeError (str ''Invalid time value'')"
  by (auto simp: expiryCheck_def split: option.splits json.splits if_splits)

lemma expiryCheck_returns:
  "(\<exists>logged. expiryCheck now (JObject kvs) = Inr logged) \<longleftrightarrow>
     \<not> (\<exists>d. map_of kvs (str ''exp'') = Some (JNumber d)
              \<and> number_less d now \<and> \<not> validTime (times1000 d))"
  by (auto simp: expiryCheck_def split: option.splits json.splits)

text \<open>
  What \<^verbatim>\<open>parseToken\<close> does with a token of three segments whose payload decodes to an
  object with usable \<^verbatim>\<open>sub\<close> and \<^verbatim>\<open>email\<close>: it throws what the expiry check throws, or
  returns the claims.
\<close>

lemma parseToken_object:
  assumes parts: "split 46 token = [h, p, s]"
    and obj: "JSON_parse (decodePayload p) = Some (JObject kvs)"
    and sub: "map_of kvs (str ''sub'') = Some (JString subject)" "trim subject \<noteq> []"
    and email: "map_of kvs (str ''email'') = Some (JString address)" "trim address \<noteq> []"
  shows "parseToken now token =
           (case expiryCheck now (JObject kvs) of
              Inl error \<Rightarrow> (snd (rolesOf (JObject kvs)), Inl error)
            | Inr expiryLog \<Rightarrow>
                (snd (rolesOf (JObject kvs)) @ expiryLog @ [(Debug, ''Token parsed successfully'')],
                 Inr \<lparr>sub = subject, email = address,
                      roles = fst (rolesOf (JObject kvs)),
                      exp = numberOf (map_of kvs (str ''exp'')),
                      iat = numberOf (map_of kvs (str ''iat''))\<rparr>))"
proof -
  from sub email have ne: "subject \<noteq> []" "address \<noteq> []"
    using trim_Nil by auto
  show ?thesis
    using parts obj sub email ne
    by (simp add: parseToken_def Let_def split_beta split: sum.splits)
qed

lemma parseToken_object_returns:
  assumes "split 46 token = [h, p, s]"
    and "JSON_parse (decodePayload p) = Some (JObject kvs)"
    and "map_of kvs (str ''sub'') = Some (JString subject)" and "trim subject \<noteq> []"
    and "map_of kvs (str ''email'') = Some (JString address)" and "trim address \<noteq> []"
  shows "snd (parseToken now token) = Inr claims \<longleftrightarrow>
           (\<exists>logged. expiryCheck now (JObject kvs) = Inr logged)
           \<and> claims = \<lparr>sub = subject, email = address,
                         roles = fst (rolesOf (JObject kvs)),
                         exp = numberOf (map_of kvs (str ''exp'')),
                         iat = numberOf (map_of kvs (str ''iat''))\<rparr>"
  by (auto simp: parseToken_object[OF assms] split: sum.splits)

text \<open>
  C1. A token of three segments whose payload is an object with usable \<^verbatim>\<open>sub\<close> and
  \<^verbatim>\<open>email\<close> is meant to be accepted with those values. The payload of the token below is
  \<^verbatim>\<open>{"sub":"a","email":"b","exp":-8640000000001}\<close>: its \<^verbatim>\<open>exp\<close> is a number below the clock
  and its thousandfold lies before the first time value of a date, so formatting the
  expiry date for the warning throws a \<^verbatim>\<open>RangeError\<close> and no claims are returned.
\<close>

theorem parseToken_valid_claims_thrown:
  "split 46 (str ''hdr.eyJzdWIiOiJhIiwiZW1haWwiOiJiIiwiZXhwIjotODY0MDAwMDAwMDAwMX0.sig'')
     = [str ''hdr'', str ''eyJzdWIiOiJhIiwiZW1haWwiOiJiIiwiZXhwIjotODY0MDAwMDAwMDAwMX0'', str ''sig'']
   \<and> JSON_parse (decodePayload (str ''eyJzdWIiOiJhIiwiZW1haWwiOiJiIiwiZXhwIjotODY0MDAwMDAwMDAwMX0''))
     = Some (JObject [(str ''sub'', JString (str ''a'')), (str ''email'', JString (str ''b'')),
                      (str ''exp'', JNumber (Finite (- 8640000000001) 0))])
   \<and> trim (str ''a'') \<noteq> [] \<and> trim (str ''b'') \<noteq> []
   \<and> parseToken 1700000000
         (str ''hdr.eyJzdWIiOiJhIiwiZW1haWwiOiJiIiwiZXhwIjotODY0MDAwMDAwMDAwMX0.sig'')
     = ([], Inl (RangeError (str ''Invalid time value'')))"
  by code_simp

theorem parseToken_valid_claims_thrown_witness:
  "snd (parseToken 1700000000
         (str ''hdr.eyJzdWIiOiJhIiwiZW1haWwiOiJiIiwiZXhwIjotODY0MDAwMDAwMDAwMX0.sig''))
     = Inl (RangeError (str ''Invalid time value''))
   \<and> (\<forall>claims. snd (parseToken 1700000000
         (str ''hdr.eyJzdWIiOiJhIiwiZW1haWwiOiJiIiwiZXhwIjotODY0MDAwMDAwMDAwMX0.sig''))
     \<noteq> Inr claims)"
  using parseToken_valid_claims_thrown by simp

lemma all_strings_iff:
  "list_all (\<lambda>r. typeof (Some r) = ''string'') rs \<longleftrightarrow> (\<forall>r \<in> set rs. \<exists>x. r = JString x)"
proof (induction rs)
  case Nil
  show ?case by simp
next
  case (Cons r rs)
  then show ?case by (cases r) simp_all
qed

lemma rolesOf_absent:
  "map_of kvs (str ''roles'') = None \<Longrightarrow> fst (rolesOf (JObject kvs)) = []"
  by (simp add: rolesOf_def)

lemma rolesOf_not_array:
  "map_of kvs (str ''roles'') = Some v \<Longrightarrow> (\<forall>rs. v \<noteq> JArray rs)
     \<Longrightarrow> fst (rolesOf (JObject kvs)) = []"
  by (cases v) (simp_all add: rolesOf_def)

lemma rolesOf_not_strings:
  "map_of kvs (str ''roles'') = Some (JArray rs) \<Longrightarrow> \<exists>r \<in> set rs. \<forall>x. r \<noteq> JString x
     \<Longrightarrow> fst (rolesOf (JObject kvs)) = []"
  using all_strings_iff[of rs] by (auto simp: rolesOf_def)

lemma rolesOf_strings:
  "map_of kvs (str ''roles'') = Some (JArray (map JString names))
     \<Longrightarrow> fst (rolesOf (JObject kvs)) = names"
  using all_strings_iff[of "map JString names"] by (auto simp: rolesOf_def comp_def)

lemma rolesOf_log_not_expiry:
  "(Warn, ''Token is expired but accepted in mock mode'') \<notin> set (snd (rolesOf claims))"
  by (auto simp: rolesOf_def split: option.splits json.splits)

text \<open>
  C7. The \<^verbatim>\<open>roles\<close> field never makes \<^verbatim>\<open>parseToken\<close> fail. For a token of three
  segments whose payload is an object with usable \<^verbatim>\<open>sub\<close> and \<^verbatim>\<open>email\<close>, claims are
  returned unless the expiry check throws, which depends on \<^verbatim>\<open>exp\<close> and the clock alone.
  The claims returned have no roles if the field is absent, is not an array, or is an
  array with an element that is not a string; if it is an array of strings the claims
  have those strings, in the same order and with repetitions kept. The roles of
  returned claims are always a list.
\<close>

theorem parseToken_roles:
  assumes "split 46 token = [h, p, s]"
    and "JSON_parse (decodePayload p) = Some (JObject kvs)"
    and "map_of kvs (str ''sub'') = Some (JString subject)" and "trim subject \<noteq> []"
    and "map_of kvs (str ''email'') = Some (JString address)" and "trim address \<noteq> []"
  shows "((\<exists>claims. snd (parseToken now token) = Inr claims)
            \<longleftrightarrow> \<not> (\<exists>d. map_of kvs (str ''exp'') = Some (JNumber d)
                        \<and> number_less d now \<and> \<not> validTime (times1000 d)))
     \<and> (\<forall>claims. snd (parseToken now token) = Inr claims \<longrightarrow>
           (map_of kvs (str ''roles'') = None \<longrightarrow> roles claims = [])
         \<and> (\<forall>v. map_of kvs (str ''roles'') = Some v \<and> (\<forall>rs. v \<noteq> JArray rs)
                \<longrightarrow> roles claims = [])
         \<and> (\<forall>rs. map_of kvs (str ''roles'') = Some (JArray rs)
                  \<and> (\<exists>r \<in> set rs. \<forall>x. r \<noteq> JString x)
                \<longrightarrow> roles claims = [])
         \<and> (\<forall>names. map_of kvs (str ''roles'') = Some (JArray (map JString names))
                \<longrightarrow> roles claims = names))"
proof (intro conjI allI impI)
  show "(\<exists>claims. snd (parseToken now token) = Inr claims)
          \<longleftrightarrow> \<not> (\<exists>d. map_of kvs (str ''exp'') = Some (JNumber d)
                      \<and> number_less d now \<and> \<not> validTime (times1000 d))"
    unfolding parseToken_object_returns[OF assms] expiryCheck_returns[symmetric] by blast
next
  fix claims
  assume "snd (parseToken now token) = Inr claims"
  then have held: "roles claims = fst (rolesOf (JObject kvs))"
    unfolding parseToken_object_returns[OF assms] by simp
  show "roles claims = []" if "map_of kvs (str ''roles'') = None"
    using that held rolesOf_absent by simp
  show "roles claims = []"
    if "map_of kvs (str ''roles'') = Some v \<and> (\<forall>rs. v \<noteq> JArray rs)" for v
    using that held rolesOf_not_array[of kvs v] by simp
  show "roles claims = []"
    if "map_of kvs (str ''roles'') = Some (JArray rs) \<and> (\<exists>r \<in> set rs. \<forall>x. r \<noteq> JString x)"
    for rs
    using that held rolesOf_not_strings[of kvs rs] by simp
  show "roles claims = names"
    if "map_of kvs (str ''roles'') = Some (JArray (map JString names))" for names
    using that held rolesOf_strings[of kvs names] by simp
qed

text \<open>
  The payloads of these two tokens are
  \<^verbatim>\<open>{"sub":"u1","email":"u1@x.io","roles":["admin","admin","user"]}\<close> and
  \<^verbatim>\<open>{"sub":"u1","email":"u1@x.io","roles":["admin",7]}\<close>.
\<close>

theorem parseToken_roles_witness:
  "(\<exists>claims.
      snd (parseToken 0 (str ''hdr.eyJzdWIiOiJ1MSIsImVtYWlsIjoidTFAeC5pbyIsInJvbGVzIjpbImFkbWluIiwiYWRtaW4iLCJ1c2VyIl19.sig''))
        = Inr claims
      \<and> roles claims = [str ''admin'', str ''admin'', str ''user''])
   \<and> (\<exists>claims.
      snd (parseToken 0 (str ''hdr.eyJzdWIiOiJ1MSIsImVtYWlsIjoidTFAeC5pbyIsInJvbGVzIjpbImFkbWluIiw3XX0.sig''))
        = Inr claims
      \<and> roles claims = [])"
proof -
  let ?p1 = "str ''eyJzdWIiOiJ1MSIsImVtYWlsIjoidTFAeC5pbyIsInJvbGVzIjpbImFkbWluIiwiYWRtaW4iLCJ1c2VyIl19''"
  let ?kvs1 = "[(str ''sub'', JString (str ''u1'')), (str ''email'', JString (str ''u1@x.io'')),
                (str ''roles'', JArray (map JString [str ''admin'', str ''admin'', str ''user'']))]"
  let ?p2 = "str ''eyJzdWIiOiJ1MSIsImVtYWlsIjoidTFAeC5pbyIsInJvbGVzIjpbImFkbWluIiw3XX0''"
  let ?kvs2 = "[(str ''sub'', JString (str ''u1'')), (str ''email'', JString (str ''u1@x.io'')),
                (str ''roles'', JArray [JString (str ''admin''), JNumber (Finite 7 0)])]"
  have parts1: "split 46 (str ''hdr.eyJzdWIiOiJ1MSIsImVtYWlsIjoidTFAeC5pbyIsInJvbGVzIjpbImFkbWluIiwiYWRtaW4iLCJ1c2VyIl19.sig'')
                  = [str ''hdr'', ?p1, str ''sig'']"
    by code_simp
  have obj1: "JSON_parse (decodePayload ?p1) = Some (JObject ?kvs1)" by code_simp
  have sub1: "map_of ?kvs1 (str ''sub'') = Some (JString (str ''u1''))" by code_simp
  have email1: "map_of ?kvs1 (str ''email'') = Some (JString (str ''u1@x.io''))" by code_simp
  have roles1: "map_of ?kvs1 (str ''roles'')
                  = Some (JArray (map JString [str ''admin'', str ''admin'', str ''user'']))"
    by code_simp
  have exp1: "map_of ?kvs1 (str ''exp'') = None" by code_simp
  have parts2: "split 46 (str ''hdr.eyJzdWIiOiJ1MSIsImVtYWlsIjoidTFAeC5pbyIsInJvbGVzIjpbImFkbWluIiw3XX0.sig'')
                  = [str ''hdr'', ?p2, str ''sig'']"
    by code_simp
  have obj2: "JSON_parse (decodePayload ?p2) = Some (JObject ?kvs2)" by code_simp
  have sub2: "map_of ?kvs2 (str ''sub'') = Some (JString (str ''u1''))" by code_simp
  have email2: "map_of ?kvs2 (str ''email'') = Some (JString (str ''u1@x.io''))" by code_simp
  have roles2: "map_of ?kvs2 (str ''roles'')
                  = Some (JArray [JString (str ''admin''), JNumber (Finite 7 0)])"
    by code_simp
  have exp2: "map_of ?kvs2 (str ''exp'') = None" by code_simp
  have bad2: "\<exists>r \<in> set [JString (str ''admin''), JNumber (Finite 7 0)]. \<forall>x. r \<noteq> JString x"
    by simp
  have t1: "trim (str ''u1'') \<noteq> []" by code_simp
  have t2: "trim (str ''u1@x.io'') \<noteq> []" by code_simp
  from parseToken_roles[OF parts1 obj1 sub1 t1 email1 t2, of 0] roles1 exp1
  have first: "\<exists>claims.
      snd (parseToken 0 (str ''hdr.eyJzdWIiOiJ1MSIsImVtYWlsIjoidTFAeC5pbyIsInJvbGVzIjpbImFkbWluIiwiYWRtaW4iLCJ1c2VyIl19.sig''))
        = Inr claims
      \<and> roles claims = [str ''admin'', str ''admin'', str ''user'']"
    by (metis option.distinct(1))
  from parseToken_roles[OF parts2 obj2 sub2 t1 email2 t2, of 0] roles2 exp2 bad2
  have second: "\<exists>claims.
      snd (parseToken 0 (str ''hdr.eyJzdWIiOiJ1MSIsImVtYWlsIjoidTFAeC5pbyIsInJvbGVzIjpbImFkbWluIiw3XX0.sig''))
        = Inr claims
      \<and> roles claims = []"
    by (metis option.distinct(1))
  from first second show ?thesis by blast
qed

text \<open>
  C8. A numeric \<^verbatim>\<open>exp\<close> is meant never to make \<^verbatim>\<open>parseToken\<close> fail, before or after the
  clock. The payload of the token below is
  \<^verbatim>\<open>{"sub":"u1","email":"u1@x.io","exp":-8640000000001}\<close>. When the clock reads 1700000000
  the token is expired, the expiry date to be logged is out of the range of dates, and
  \<^verbatim>\<open>toISOString\<close> throws a \<^verbatim>\<open>RangeError\<close>; when the clock reads -9000000000000 the same
  token is not yet expired and is accepted, with its \<^verbatim>\<open>exp\<close> carried into the claims.
\<close>

theorem parseToken_expired_thrown:
  "number_less (Finite (- 8640000000001) 0) 1700000000
   \<and> \<not> validTime (times1000 (Finite (- 8640000000001) 0))
   \<and> parseToken 1700000000
         (str ''hdr.eyJzdWIiOiJ1MSIsImVtYWlsIjoidTFAeC5pbyIsImV4cCI6LTg2NDAwMDAwMDAwMDF9.sig'')
     = ([], Inl (RangeError (str ''Invalid time value'')))
   \<and> \<not> number_less (Finite (- 8640000000001) 0) (- 9000000000000)
   \<and> snd (parseToken (- 9000000000000)
         (str ''hdr.eyJzdWIiOiJ1MSIsImVtYWlsIjoidTFAeC5pbyIsImV4cCI6LTg2NDAwMDAwMDAwMDF9.sig''))
     = Inr \<lparr>sub = str ''u1'', email = str ''u1@x.io'', roles = [],
            exp = Some (Finite (- 8640000000001) 0), iat = None\<rparr>"
  by code_simp

theorem parseToken_expired_thrown_witness:
  "(\<forall>claims. snd (parseToken 1700000000
         (str ''hdr.eyJzdWIiOiJ1MSIsImVtYWlsIjoidTFAeC5pbyIsImV4cCI6LTg2NDAwMDAwMDAwMDF9.sig''))
     \<noteq> Inr claims)
   \<and> (\<exists>claims. snd (parseToken (- 9000000000000)
         (str ''hdr.eyJzdWIiOiJ1MSIsImVtYWlsIjoidTFAeC5pbyIsImV4cCI6LTg2NDAwMDAwMDAwMDF9.sig''))
     = Inr claims \<and> exp claims = Some (Finite (- 8640000000001) 0))"
  using parseToken_expired_thrown by simp

text \<open>
  C6. A payload that is a JSON array is meant to be rejected as not being an object.
  The payload of the token below is \<^verbatim>\<open>[]\<close>: it parses to the empty array, which is
  truthy and of type \<^verbatim>\<open>object\<close>, so the object check lets it through and the token is
  rejected for its missing \<^verbatim>\<open>sub\<close> instead.
\<close>

theorem parseToken_array_payload:
  "JSON_parse (decodePayload (str ''W10'')) = Some (JArray [])
   \<and> snd (parseToken now (str ''hdr.W10.sig'')) = Inl (InvalidTokenException msg_sub)"
  by code_simp

theorem parseToken_array_payload_witness:
  "snd (parseToken 0 (str ''hdr.W10.sig'')) = Inl (InvalidTokenException msg_sub)
   \<and> snd (parseToken 0 (str ''hdr.W10.sig'')) \<noteq> Inl (InvalidTokenException msg_object)
   \<and> snd (parseToken 0 (str ''hdr.W10.sig'')) \<noteq> Inl (InvalidTokenException msg_json)"
proof -
  have differ: "msg_sub \<noteq> msg_object" "msg_sub \<noteq> msg_json"
    by (simp_all add: msg_sub_def msg_object_def msg_json_def str_def)
  from parseToken_array_payload[of 0] differ show ?thesis by simp
qed

text \<open>
  C9. A payload that is not base64url is meant to be rejected for its encoding. The
  payload of the token below starts with \<^verbatim>\<open>!\<close>, which is no base64url character; the
  decoder skips it, the rest decodes to \<^verbatim>\<open>{"sub":"a","email":"b"}\<close>, and the token is
  accepted.
\<close>

theorem parseToken_invalid_base64_accepted:
  "snd (parseToken now (str ''hdr.!eyJzdWIiOiJhIiwiZW1haWwiOiJiIn0.sig''))
     = Inr \<lparr>sub = str ''a'', email = str ''b'', roles = [], exp = None, iat = None\<rparr>"
  by code_simp

theorem parseToken_invalid_base64_accepted_witness:
  "unbase64 33 = None
   \<and> snd (parseToken 0 (str ''hdr.!eyJzdWIiOiJhIiwiZW1haWwiOiJiIn0.sig''))
       = Inr \<lparr>sub = str ''a'', email = str ''b'', roles = [], exp = None, iat = None\<rparr>
   \<and> snd (parseToken 0 (str ''hdr.!eyJzdWIiOiJhIiwiZW1haWwiOiJiIn0.sig''))
       \<noteq> Inl (InvalidTokenException msg_base64)"
proof -
  have skipped: "unbase64 33 = None" by (simp add: unbase64_def)
  from parseToken_invalid_base64_accepted[of 0] skipped show ?thesis by simp
qed

section \<open>Further properties of token parsing\<close>

lemma messages_differ:
  "msg_base64 \<noteq> msg_parts" "msg_base64 \<noteq> msg_json" "msg_base64 \<noteq> msg_object"
  "msg_base64 \<noteq> msg_sub" "msg_base64 \<noteq> msg_email"
  by (simp_all add: msg_base64_def msg_parts_def msg_json_def msg_object_def msg_sub_def
        msg_email_def str_def)

text \<open>
  \<^verbatim>\<open>parseToken\<close> never throws the exception of its first \<^verbatim>\<open>catch\<close> block: no token is
  rejected for the encoding of its payload.
\<close>

theorem parseToken_never_encoding:
  "snd (parseToken now token) \<noteq> Inl (InvalidTokenException msg_base64)"
  using messages_differ
  by (auto simp: parseToken_def Let_def split_beta dest: expiryCheck_thrown
        split: option.splits sum.splits)

text \<open>A payload of four characters that are not base64url decodes to the empty text.\<close>

theorem parseToken_never_encoding_witness:
  "decodePayload (str ''!!!!'') = []
   \<and> snd (parseToken 0 (str ''hdr.!!!!.sig'')) = Inl (InvalidTokenException msg_json)
   \<and> snd (parseToken 0 (str ''hdr.!!!!.sig'')) \<noteq> Inl (InvalidTokenException msg_base64)"
proof -
  have empty: "decodePayload (str ''!!!!'') = []" by code_simp
  have run: "snd (parseToken 0 (str ''hdr.!!!!.sig'')) = Inl (InvalidTokenException msg_json)"
    by code_simp
  from parseToken_never_encoding[of 0 "str ''hdr.!!!!.sig''"] empty run
  show ?thesis by blast
qed

text \<open>
  The payload segment is converted as the source comments say: \<^verbatim>\<open>-\<close> and \<^verbatim>\<open>_\<close>
  become \<^verbatim>\<open>+\<close> and \<^verbatim>\<open>/\<close>, and fewer than four \<^verbatim>\<open>=\<close> are appended so that the length
  is a multiple of four, before the text is decoded.
\<close>

lemma replaceAll_both:
  "replaceAll 95 47 (replaceAll 45 43 payload)
     = map (\<lambda>c. if c = 45 then 43 else if c = 95 then 47 else c) payload"
  unfolding replaceAll_def by (induction payload) simp_all

lemma pad_length: "((k::nat) + (4 - k mod 4) mod 4) mod 4 = 0"
proof -
  have "k mod 4 = 0 \<or> k mod 4 = 1 \<or> k mod 4 = 2 \<or> k mod 4 = 3" by auto
  moreover have "(k + (4 - k mod 4) mod 4) mod 4 = (k mod 4 + (4 - k mod 4) mod 4) mod 4"
    by (simp add: mod_add_left_eq)
  ultimately show ?thesis by auto
qed

lemma decodePayload_unfold:
  "decodePayload payload =
     toString_utf8 (Buffer_from_base64
       (map (\<lambda>c. if c = 45 then 43 else if c = 95 then 47 else c) payload
          @ replicate ((4 - length payload mod 4) mod 4) 61))"
proof -
  have "decodePayload payload =
          toString_utf8 (Buffer_from_base64
            (replaceAll 95 47 (replaceAll 45 43 payload)
               @ replicate (length (replaceAll 95 47 (replaceAll 45 43 payload))
                   + (4 - length (replaceAll 95 47 (replaceAll 45 43 payload)) mod 4) mod 4
                   - length (replaceAll 95 47 (replaceAll 45 43 payload))) 61))"
    unfolding decodePayload_def Let_def padEnd_def by (rule refl)
  then show ?thesis
    unfolding replaceAll_both length_map add_diff_cancel_left' .
qed

theorem decodePayload_padding:
  "\<exists>n < 4. (length payload + n) mod 4 = 0
     \<and> decodePayload payload =
         toString_utf8 (Buffer_from_base64
           (map (\<lambda>c. if c = 45 then 43 else if c = 95 then 47 else c) payload
              @ replicate n 61))"
proof (intro exI conjI)
  show "(4 - length payload mod 4) mod 4 < 4" by simp
  show "(length payload + (4 - length payload mod 4) mod 4) mod 4 = 0" by (rule pad_length)
  show "decodePayload payload =
         toString_utf8 (Buffer_from_base64
           (map (\<lambda>c. if c = 45 then 43 else if c = 95 then 47 else c) payload
              @ replicate ((4 - length payload mod 4) mod 4) 61))"
    by (rule decodePayload_unfold)
qed

text \<open>The payload \<^verbatim>\<open>W10\<close> of three characters gets one \<^verbatim>\<open>=\<close>.\<close>

theorem decodePayload_padding_witness:
  "\<exists>n < 4. (length (str ''W10'') + n) mod 4 = 0
     \<and> decodePayload (str ''W10'') =
         toString_utf8 (Buffer_from_base64
           (map (\<lambda>c. if c = 45 then 43 else if c = 95 then 47 else c) (str ''W10'')
              @ replicate n 61))"
  by (rule decodePayload_padding)

text \<open>
  What becomes of a token of three segments whose payload is not a JSON object: text
  that is not JSON is rejected as such, null and the scalars are rejected as no object,
  and an array is rejected for its missing \<^verbatim>\<open>sub\<close>.
\<close>

theorem parseToken_payload_shape:
  assumes "split 46 token = [h, p, s]"
  shows "(JSON_parse (decodePayload p) = None
            \<longrightarrow> snd (parseToken now token) = Inl (InvalidTokenException msg_json))
       \<and> (JSON_parse (decodePayload p) = Some JNull
            \<longrightarrow> snd (parseToken now token) = Inl (InvalidTokenException msg_object))
       \<and> (\<forall>b. JSON_parse (decodePayload p) = Some (JBool b)
            \<longrightarrow> snd (parseToken now token) = Inl (InvalidTokenException msg_object))
       \<and> (\<forall>d. JSON_parse (decodePayload p) = Some (JNumber d)
            \<longrightarrow> snd (parseToken now token) = Inl (InvalidTokenException msg_object))
       \<and> (\<forall>x. JSON_parse (decodePayload p) = Some (JString x)
            \<longrightarrow> snd (parseToken now token) = Inl (InvalidTokenException msg_object))
       \<and> (\<forall>xs. JSON_parse (decodePayload p) = Some (JArray xs)
            \<longrightarrow> snd (parseToken now token) = Inl (InvalidTokenException msg_sub))"
  using assms by (simp add: parseToken_def Let_def)

text \<open>The payloads of these tokens are \<^verbatim>\<open>{\<close> and \<^verbatim>\<open>null\<close>.\<close>

theorem parseToken_payload_shape_witness:
  "JSON_parse (decodePayload (str ''ew'')) = None
   \<and> snd (parseToken 0 (str ''hdr.ew.sig'')) = Inl (InvalidTokenException msg_json)
   \<and> JSON_parse (decodePayload (str ''bnVsbA'')) = Some JNull
   \<and> snd (parseToken 0 (str ''hdr.bnVsbA.sig'')) = Inl (InvalidTokenException msg_object)"
proof -
  have parts1: "split 46 (str ''hdr.ew.sig'') = [str ''hdr'', str ''ew'', str ''sig'']"
    by code_simp
  have parts2: "split 46 (str ''hdr.bnVsbA.sig'') = [str ''hdr'', str ''bnVsbA'', str ''sig'']"
    by code_simp
  have bad: "JSON_parse (decodePayload (str ''ew'')) = None" by code_simp
  have null: "JSON_parse (decodePayload (str ''bnVsbA'')) = Some JNull" by code_simp
  from parseToken_payload_shape[OF parts1, of 0] bad
  have first: "snd (parseToken 0 (str ''hdr.ew.sig'')) = Inl (InvalidTokenException msg_json)"
    by blast
  from parseToken_payload_shape[OF parts2, of 0] null
  have second: "snd (parseToken 0 (str ''hdr.bnVsbA.sig'')) = Inl (InvalidTokenException msg_object)"
    by blast
  from bad first null second show ?thesis by blast
qed

text \<open>
  A token that does not have exactly three segments is rejected for its structure,
  before its payload is looked at.
\<close>

theorem parseToken_structure:
  assumes "length (split 46 token) \<noteq> 3"
  shows "parseToken now token =
           ([(Warn, ''Token validation failed: invalid format (expected 3 parts)'')],
            Inl (InvalidTokenException msg_parts))"
  using assms by (simp add: parseToken_def Let_def)

theorem parseToken_structure_witness:
  "length (split 46 (str ''invalid.token'')) = 2
   \<and> parseToken 0 (str ''invalid.token'') =
       ([(Warn, ''Token validation failed: invalid format (expected 3 parts)'')],
        Inl (InvalidTokenException msg_parts))"
proof -
  have two: "length (split 46 (str ''invalid.token'')) = 2" by code_simp
  then have "length (split 46 (str ''invalid.token'')) \<noteq> 3" by simp
  from parseToken_structure[OF this, of 0] two show ?thesis by blast
qed

text \<open>
  A payload object whose \<^verbatim>\<open>sub\<close> is absent, is not a string, or is blank is rejected for
  its \<^verbatim>\<open>sub\<close>; with a usable \<^verbatim>\<open>sub\<close>, the same holds of \<^verbatim>\<open>email\<close>.
\<close>

theorem parseToken_required_claims:
  assumes "split 46 token = [h, p, s]"
    and "JSON_parse (decodePayload p) = Some (JObject kvs)"
  shows "((\<forall>x. map_of kvs (str ''sub'') = Some (JString x) \<longrightarrow> trim x = [])
            \<longrightarrow> snd (parseToken now token) = Inl (InvalidTokenException msg_sub))
       \<and> ((\<exists>x. map_of kvs (str ''sub'') = Some (JString x) \<and> trim x \<noteq> [])
            \<and> (\<forall>y. map_of kvs (str ''email'') = Some (JString y) \<longrightarrow> trim y = [])
            \<longrightarrow> snd (parseToken now token) = Inl (InvalidTokenException msg_email))"
proof -
  have blank: "(\<forall>x. v = Some (JString x) \<longrightarrow> trim x = [])
      \<longleftrightarrow> (\<not> truthy v \<or> typeof v \<noteq> ''string'' \<or> trim (stringOf v) = [])" for v
  proof (cases v)
    case None
    then show ?thesis by simp
  next
    case (Some j)
    then show ?thesis using trim_Nil by (cases j) auto
  qed
  show ?thesis
    using assms blank[of "map_of kvs (str ''sub'')"] blank[of "map_of kvs (str ''email'')"]
    by (auto simp: parseToken_def Let_def split_beta)
qed

text \<open>The payloads of these tokens are \<^verbatim>\<open>{"sub":" ","email":"b"}\<close> and \<^verbatim>\<open>{"sub":"a","email":7}\<close>.\<close>

theorem parseToken_required_claims_witness:
  "snd (parseToken 0 (str ''hdr.eyJzdWIiOiIgIiwiZW1haWwiOiJiIn0.sig''))
     = Inl (InvalidTokenException msg_sub)
   \<and> snd (parseToken 0 (str ''hdr.eyJzdWIiOiJhIiwiZW1haWwiOjd9.sig''))
     = Inl (InvalidTokenException msg_email)"
proof -
  let ?kvs1 = "[(str ''sub'', JString (str '' '')), (str ''email'', JString (str ''b''))]"
  let ?kvs2 = "[(str ''sub'', JString (str ''a'')), (str ''email'', JNumber (Finite 7 0))]"
  have parts1: "split 46 (str ''hdr.eyJzdWIiOiIgIiwiZW1haWwiOiJiIn0.sig'')
                  = [str ''hdr'', str ''eyJzdWIiOiIgIiwiZW1haWwiOiJiIn0'', str ''sig'']"
    by code_simp
  have obj1: "JSON_parse (decodePayload (str ''eyJzdWIiOiIgIiwiZW1haWwiOiJiIn0''))
                = Some (JObject ?kvs1)"
    by code_simp
  have sub1: "map_of ?kvs1 (str ''sub'') = Some (JString (str '' ''))" by code_simp
  have blank1: "trim (str '' '') = []" by code_simp
  have parts2: "split 46 (str ''hdr.eyJzdWIiOiJhIiwiZW1haWwiOjd9.sig'')
                  = [str ''hdr'', str ''eyJzdWIiOiJhIiwiZW1haWwiOjd9'', str ''sig'']"
    by code_simp
  have obj2: "JSON_parse (decodePayload (str ''eyJzdWIiOiJhIiwiZW1haWwiOjd9''))
                = Some (JObject ?kvs2)"
    by code_simp
  have sub2: "map_of ?kvs2 (str ''sub'') = Some (JString (str ''a''))" by code_simp
  have full2: "trim (str ''a'') \<noteq> []" by code_simp
  have email2: "map_of ?kvs2 (str ''email'') = Some (JNumber (Finite 7 0))" by code_simp
  from parseToken_required_claims[OF parts1 obj1, of 0] sub1 blank1
  have first: "snd (parseToken 0 (str ''hdr.eyJzdWIiOiIgIiwiZW1haWwiOiJiIn0.sig''))
     = Inl (InvalidTokenException msg_sub)"
    by simp
  from parseToken_required_claims[OF parts2 obj2, of 0] sub2 full2 email2
  have second: "snd (parseToken 0 (str ''hdr.eyJzdWIiOiJhIiwiZW1haWwiOjd9.sig''))
     = Inl (InvalidTokenException msg_email)"
    by simp
  from first second show ?thesis by blast
qed

text \<open>
  The general case behind C1: a token of three segments whose payload is an object with
  usable \<^verbatim>\<open>sub\<close> and \<^verbatim>\<open>email\<close> is accepted with those values, unless its \<^verbatim>\<open>exp\<close> is a
  number below the clock whose thousandfold is no time value of a date; then the
  \<^verbatim>\<open>RangeError\<close> of \<^verbatim>\<open>toISOString\<close> is thrown. A token without a numeric \<^verbatim>\<open>exp\<close> is
  always accepted.
\<close>

theorem parseToken_accepted_unless_date_invalid:
  assumes "split 46 token = [h, p, s]"
    and "JSON_parse (decodePayload p) = Some (JObject kvs)"
    and "map_of kvs (str ''sub'') = Some (JString subject)" and "trim subject \<noteq> []"
    and "map_of kvs (str ''email'') = Some (JString address)" and "trim address \<noteq> []"
  shows "((\<exists>d. map_of kvs (str ''exp'') = Some (JNumber d)
              \<and> number_less d now \<and> \<not> validTime (times1000 d))
            \<longrightarrow> snd (parseToken now token) = Inl (RangeError (str ''Invalid time value'')))
       \<and> (\<not> (\<exists>d. map_of kvs (str ''exp'') = Some (JNumber d)
              \<and> number_less d now \<and> \<not> validTime (times1000 d))
            \<longrightarrow> (\<exists>claims. snd (parseToken now token) = Inr claims
                    \<and> sub claims = subject \<and> email claims = address))
       \<and> ((\<forall>d. map_of kvs (str ''exp'') \<noteq> Some (JNumber d))
            \<longrightarrow> (\<exists>claims. snd (parseToken now token) = Inr claims
                    \<and> sub claims = subject \<and> email claims = address))"
proof (intro conjI impI)
  assume "\<exists>d. map_of kvs (str ''exp'') = Some (JNumber d)
              \<and> number_less d now \<and> \<not> validTime (times1000 d)"
  then have "expiryCheck now (JObject kvs) = Inl (RangeError (str ''Invalid time value''))"
    unfolding expiryCheck_throws by simp
  then show "snd (parseToken now token) = Inl (RangeError (str ''Invalid time value''))"
    by (simp add: parseToken_object[OF assms])
next
  assume "\<not> (\<exists>d. map_of kvs (str ''exp'') = Some (JNumber d)
              \<and> number_less d now \<and> \<not> validTime (times1000 d))"
  then obtain logged where "expiryCheck now (JObject kvs) = Inr logged"
    unfolding expiryCheck_returns[symmetric] by blast
  then show "\<exists>claims. snd (parseToken now token) = Inr claims
                    \<and> sub claims = subject \<and> email claims = address"
    by (simp add: parseToken_object[OF assms])
next
  assume "\<forall>d. map_of kvs (str ''exp'') \<noteq> Some (JNumber d)"
  then have "\<not> (\<exists>d. map_of kvs (str ''exp'') = Some (JNumber d)
              \<and> number_less d now \<and> \<not> validTime (times1000 d))"
    by blast
  then obtain logged where "expiryCheck now (JObject kvs) = Inr logged"
    unfolding expiryCheck_returns[symmetric] by blast
  then show "\<exists>claims. snd (parseToken now token) = Inr claims
                    \<and> sub claims = subject \<and> email claims = address"
    by (simp add: parseToken_object[OF assms])
qed

text \<open>
  The payload of this token is \<^verbatim>\<open>{"sub":"user-123","email":"test@example.com"}\<close>.
\<close>

theorem parseToken_accepted_unless_date_invalid_witness:
  "split 46 (str ''hdr.eyJzdWIiOiJ1c2VyLTEyMyIsImVtYWlsIjoidGVzdEBleGFtcGxlLmNvbSJ9.sig'')
     = [str ''hdr'', str ''eyJzdWIiOiJ1c2VyLTEyMyIsImVtYWlsIjoidGVzdEBleGFtcGxlLmNvbSJ9'', str ''sig'']
   \<and> JSON_parse (decodePayload (str ''eyJzdWIiOiJ1c2VyLTEyMyIsImVtYWlsIjoidGVzdEBleGFtcGxlLmNvbSJ9''))
     = Some (JObject [(str ''sub'', JString (str ''user-123'')),
                      (str ''email'', JString (str ''test@example.com''))])
   \<and> trim (str ''user-123'') \<noteq> [] \<and> trim (str ''test@example.com'') \<noteq> []
   \<and> (\<exists>claims.
         snd (parseToken 0 (str ''hdr.eyJzdWIiOiJ1c2VyLTEyMyIsImVtYWlsIjoidGVzdEBleGFtcGxlLmNvbSJ9.sig''))
           = Inr claims
         \<and> sub claims = str ''user-123'' \<and> email claims = str ''test@example.com'')"
proof -
  let ?kvs = "[(str ''sub'', JString (str ''user-123'')),
               (str ''email'', JString (str ''test@example.com''))]"
  have parts: "split 46 (str ''hdr.eyJzdWIiOiJ1c2VyLTEyMyIsImVtYWlsIjoidGVzdEBleGFtcGxlLmNvbSJ9.sig'')
     = [str ''hdr'', str ''eyJzdWIiOiJ1c2VyLTEyMyIsImVtYWlsIjoidGVzdEBleGFtcGxlLmNvbSJ9'', str ''sig'']"
    by code_simp
  have obj: "JSON_parse (decodePayload (str ''eyJzdWIiOiJ1c2VyLTEyMyIsImVtYWlsIjoidGVzdEBleGFtcGxlLmNvbSJ9''))
     = Some (JObject ?kvs)"
    by code_simp
  have sub: "map_of ?kvs (str ''sub'') = Some (JString (str ''user-123''))" by code_simp
  have email: "map_of ?kvs (str ''email'') = Some (JString (str ''test@example.com''))"
    by code_simp
  have "map_of ?kvs (str ''exp'') = None" by code_simp
  then have expiry: "\<forall>d. map_of ?kvs (str ''exp'') \<noteq> Some (JNumber d)" by simp
  have t1: "trim (str ''user-123'') \<noteq> []" by code_simp
  have t2: "trim (str ''test@example.com'') \<noteq> []" by code_simp
  from parseToken_accepted_unless_date_invalid[OF parts obj sub t1 email t2, of 0] expiry
  have "\<exists>claims.
         snd (parseToken 0 (str ''hdr.eyJzdWIiOiJ1c2VyLTEyMyIsImVtYWlsIjoidGVzdEBleGFtcGxlLmNvbSJ9.sig''))
           = Inr claims
         \<and> sub claims = str ''user-123'' \<and> email claims = str ''test@example.com''"
    by blast
  with parts obj t1 t2 show ?thesis by blast
qed

text \<open>
  The general case behind C8. Whenever a token of three segments whose payload is an
  object with usable \<^verbatim>\<open>sub\<close> and \<^verbatim>\<open>email\<close> is accepted, the claims returned are the same
  whatever the clock says; they carry the number as \<^verbatim>\<open>exp\<close> when the field is a number
  and no \<^verbatim>\<open>exp\<close> otherwise. A numeric \<^verbatim>\<open>exp\<close> that is not below the clock is accepted
  without the expiry warning; one below the clock whose date can be formatted is
  accepted with the warning.
\<close>

theorem parseToken_exp:
  assumes "split 46 token = [h, p, s]"
    and "JSON_parse (decodePayload p) = Some (JObject kvs)"
    and "map_of kvs (str ''sub'') = Some (JString subject)" and "trim subject \<noteq> []"
    and "map_of kvs (str ''email'') = Some (JString address)" and "trim address \<noteq> []"
  shows "\<exists>claims.
       (\<forall>now result. snd (parseToken now token) = Inr result \<longrightarrow> result = claims)
     \<and> (\<forall>d. map_of kvs (str ''exp'') = Some (JNumber d) \<longrightarrow> exp claims = Some d)
     \<and> ((\<forall>d. map_of kvs (str ''exp'') \<noteq> Some (JNumber d)) \<longrightarrow> exp claims = None)
     \<and> (\<forall>now d. map_of kvs (str ''exp'') = Some (JNumber d) \<and> \<not> number_less d now
            \<longrightarrow> snd (parseToken now token) = Inr claims
              \<and> (Warn, ''Token is expired but accepted in mock mode'')
                  \<notin> set (fst (parseToken now token)))
     \<and> (\<forall>now d. map_of kvs (str ''exp'') = Some (JNumber d) \<and> number_less d now
                \<and> validTime (times1000 d)
            \<longrightarrow> snd (parseToken now token) = Inr claims
              \<and> (Warn, ''Token is expired but accepted in mock mode'')
                  \<in> set (fst (parseToken now token)))"
proof -
  let ?claims = "\<lparr>sub = subject, email = address,
                  roles = fst (rolesOf (JObject kvs)),
                  exp = numberOf (map_of kvs (str ''exp'')),
                  iat = numberOf (map_of kvs (str ''iat''))\<rparr>"
  have result: "\<forall>now result. snd (parseToken now token) = Inr result \<longrightarrow> result = ?claims"
    unfolding parseToken_object_returns[OF assms] by simp
  have numeric: "\<forall>d. map_of kvs (str ''exp'') = Some (JNumber d) \<longrightarrow> exp ?claims = Some d"
    by (simp add: numberOf_def)
  have other: "(\<forall>d. map_of kvs (str ''exp'') \<noteq> Some (JNumber d)) \<longrightarrow> exp ?claims = None"
    by (auto simp: numberOf_def split: option.splits json.splits)
  have future: "\<forall>now d. map_of kvs (str ''exp'') = Some (JNumber d) \<and> \<not> number_less d now
            \<longrightarrow> snd (parseToken now token) = Inr ?claims
              \<and> (Warn, ''Token is expired but accepted in mock mode'')
                  \<notin> set (fst (parseToken now token))"
  proof (intro allI impI)
    fix now d
    assume "map_of kvs (str ''exp'') = Some (JNumber d) \<and> \<not> number_less d now"
    then have "expiryCheck now (JObject kvs) = Inr []"
      by (simp add: expiryCheck_def)
    then show "snd (parseToken now token) = Inr ?claims
              \<and> (Warn, ''Token is expired but accepted in mock mode'')
                  \<notin> set (fst (parseToken now token))"
      using rolesOf_log_not_expiry[of "JObject kvs"]
      by (simp add: parseToken_object[OF assms])
  qed
  have past: "\<forall>now d. map_of kvs (str ''exp'') = Some (JNumber d) \<and> number_less d now
                \<and> validTime (times1000 d)
            \<longrightarrow> snd (parseToken now token) = Inr ?claims
              \<and> (Warn, ''Token is expired but accepted in mock mode'')
                  \<in> set (fst (parseToken now token))"
  proof (intro allI impI)
    fix now d
    assume "map_of kvs (str ''exp'') = Some (JNumber d) \<and> number_less d now
                \<and> validTime (times1000 d)"
    then have "expiryCheck now (JObject kvs)
                 = Inr [(Warn, ''Token is expired but accepted in mock mode'')]"
      by (simp add: expiryCheck_def)
    then show "snd (parseToken now token) = Inr ?claims
              \<and> (Warn, ''Token is expired but accepted in mock mode'')
                  \<in> set (fst (parseToken now token))"
      by (simp add: parseToken_object[OF assms])
  qed
  from result numeric other future past show ?thesis by blast
qed

text \<open>
  The payload of this token is \<^verbatim>\<open>{"sub":"u1","email":"u1@x.io","exp":1}\<close>: expired when
  the clock reads 1700000000, not yet expired when it reads 0.
\<close>

theorem parseToken_exp_witness:
  "number_less (Finite 1 0) 1700000000 \<and> validTime (times1000 (Finite 1 0))
   \<and> \<not> number_less (Finite 1 0) 0
   \<and> (\<exists>claims.
        snd (parseToken 1700000000 (str ''hdr.eyJzdWIiOiJ1MSIsImVtYWlsIjoidTFAeC5pbyIsImV4cCI6MX0.sig''))
          = Inr claims
        \<and> snd (parseToken 0 (str ''hdr.eyJzdWIiOiJ1MSIsImVtYWlsIjoidTFAeC5pbyIsImV4cCI6MX0.sig''))
          = Inr claims
        \<and> exp claims = Some (Finite 1 0))"
proof -
  let ?p = "str ''eyJzdWIiOiJ1MSIsImVtYWlsIjoidTFAeC5pbyIsImV4cCI6MX0''"
  let ?kvs = "[(str ''sub'', JString (str ''u1'')), (str ''email'', JString (str ''u1@x.io'')),
               (str ''exp'', JNumber (Finite 1 0))]"
  have parts: "split 46 (str ''hdr.eyJzdWIiOiJ1MSIsImVtYWlsIjoidTFAeC5pbyIsImV4cCI6MX0.sig'')
                 = [str ''hdr'', ?p, str ''sig'']"
    by code_simp
  have obj: "JSON_parse (decodePayload ?p) = Some (JObject ?kvs)" by code_simp
  have sub: "map_of ?kvs (str ''sub'') = Some (JString (str ''u1''))" by code_simp
  have email: "map_of ?kvs (str ''email'') = Some (JString (str ''u1@x.io''))" by code_simp
  have expiry: "map_of ?kvs (str ''exp'') = Some (JNumber (Finite 1 0))" by code_simp
  have t1: "trim (str ''u1'') \<noteq> []" by code_simp
  have t2: "trim (str ''u1@x.io'') \<noteq> []" by code_simp
  have past: "number_less (Finite 1 0) 1700000000" by simp
  have valid: "validTime (times1000 (Finite 1 0))" by code_simp
  have future: "\<not> number_less (Finite 1 0) 0" by simp
  from parseToken_exp[OF parts obj sub t1 email t2] expiry past valid future
  have "\<exists>claims.
        snd (parseToken 1700000000 (str ''hdr.eyJzdWIiOiJ1MSIsImVtYWlsIjoidTFAeC5pbyIsImV4cCI6MX0.sig''))
          = Inr claims
        \<and> snd (parseToken 0 (str ''hdr.eyJzdWIiOiJ1MSIsImVtYWlsIjoidTFAeC5pbyIsImV4cCI6MX0.sig''))
          = Inr claims
        \<and> exp claims = Some (Finite 1 0)"
    by blast
  with past valid future show ?thesis by blast
qed

text \<open>
  The arithmetic of \<^verbatim>\<open>exp * 1000\<close> on whole numbers: a whole number below \<open>2 ^ 53\<close> is a
  double, so the product of a whole \<^verbatim>\<open>exp\<close> within the range of dates is exact.
\<close>

lemma bitlength_one: "bitlength (Suc 0) = Suc 0"
  by (simp add: bitlength.simps[of "Suc 0"] bitlength.simps[of 0])

lemma bitlength_bounds:
  "0 < n \<Longrightarrow> 2 ^ (bitlength n - 1) \<le> n \<and> n < 2 ^ bitlength n"
proof (induction n rule: bitlength.induct)
  case (1 n)
  show ?case
  proof (cases "n div 2 = 0")
    case True
    with 1(2) have "n = 1" by (simp add: div_eq_0_iff) 
    then show ?thesis by (simp add: bitlength_one)
  next
    case False
    then have pos: "0 < n div 2" by simp
    from 1(1)[OF _ pos] 1(2)
    have ih: "2 ^ (bitlength (n div 2) - 1) \<le> n div 2" "n div 2 < 2 ^ bitlength (n div 2)"
      by simp_all
    have len: "bitlength n = Suc (bitlength (n div 2))"
      using 1(2) by (simp add: bitlength.simps[of n])
    have lpos: "0 < bitlength (n div 2)"
      using pos by (simp add: bitlength.simps[of "n div 2"])
    then obtain j where j: "bitlength (n div 2) = Suc j" by (cases "bitlength (n div 2)") simp_all
    from ih j have "2 ^ j \<le> n div 2" "n div 2 < 2 ^ Suc j" by simp_all
    then have "2 ^ Suc j \<le> n" "n < 2 ^ Suc (Suc j)" by simp_all
    with len j show ?thesis by simp
  qed
qed

lemma reduce_power: "reduce (n * 2 ^ k) k = Finite n 0"
  by (induction k) simp_all

lemma to_double_whole:
  assumes "0 < m" and "m < 9007199254740992"
  shows "to_double neg m 1 = Finite (if neg then - int m else int m) 0"
proof -
  define E where "E = bitlength m - 1"
  from bitlength_bounds[OF assms(1)] have lo: "2 ^ E \<le> m" and hi: "m < 2 ^ bitlength m"
    by (simp_all add: E_def)
  have bpos: "0 < bitlength m" using assms(1) by (simp add: bitlength.simps[of m])
  have p: "(2::nat) ^ E < 2 ^ 53" using lo assms(2) by simp
  have "E < 53" by (rule power_less_imp_less_exp[OF _ p]) simp
  then have E52: "E \<le> 52" by simp
  have g: "int (bitlength m) - int (bitlength 1) = int E"
    using bpos by (simp add: bitlength_one E_def)
  from bpos have bl: "bitlength m = Suc E" by (simp add: E_def)
  from hi bl have hi': "m < 2 * 2 ^ E" by simp
  have e: "Suc E + (52 - E) = 53" using E52 by simp
  have "(2 * 2 ^ E) * 2 ^ (52 - E) = (2::nat) ^ (Suc E + (52 - E))"
    by (simp only: power_add power_Suc)
  then have eq: "(2 * 2 ^ E) * 2 ^ (52 - E) = (2::nat) ^ 53" unfolding e .
  have "m * 2 ^ (52 - E) < (2 * 2 ^ E) * 2 ^ (52 - E)" using hi' by simp
  then have small: "m * 2 ^ (52 - E) < 9007199254740992" unfolding eq by simp
  have u: "max (int E - 52) (- 1074) = - int (52 - E)" using E52 by simp
  have red: "reduce (int m * 2 ^ nat (52 - int E)) (nat (52 - int E)) = Finite (int m) 0"
    by (rule reduce_power)
  have red': "reduce (- (int m * 2 ^ nat (52 - int E))) (nat (52 - int E)) = Finite (- int m) 0"
    using reduce_power[of "- int m" "nat (52 - int E)"] by simp
  have top: "4503599627370496 \<le> m" if "E = 52"
    using lo that by simp
  show ?thesis
    unfolding to_double_def g Let_def u
    using assms(1) lo small E52 top
    by (auto simp: round_half_even_def red red')
qed

lemma times1000_whole:
  assumes "\<bar>n\<bar> \<le> 8640000000000"
  shows "validTime (times1000 (Finite n 0))"
proof (cases "n = 0")
  case True
  then show ?thesis by (simp add: to_double_def)
next
  case False
  then have pos: "0 < nat \<bar>n\<bar> * 1000" by simp
  from assms have small: "nat \<bar>n\<bar> * 1000 < 9007199254740992" by simp
  from assms have range: "- 8640000000000 \<le> n" "n \<le> 8640000000000" by arith+
  have "times1000 (Finite n 0) = Finite (n * 1000) 0"
    using to_double_whole[OF pos small, of "n < 0"] by (simp add: abs_if)
  then show ?thesis using range by (simp add: abs_if)
qed

text \<open>
  A whole number of seconds within 8640000000000 of the epoch, the range of dates, can
  always be formatted: a token of three segments whose payload is an object with usable
  \<^verbatim>\<open>sub\<close> and \<^verbatim>\<open>email\<close> and such an \<^verbatim>\<open>exp\<close> is accepted whatever the clock says, expired
  or not, and its \<^verbatim>\<open>exp\<close> is carried into the claims.
\<close>

theorem parseToken_whole_exp_accepted:
  assumes "split 46 token = [h, p, s]"
    and "JSON_parse (decodePayload p) = Some (JObject kvs)"
    and "map_of kvs (str ''sub'') = Some (JString subject)" and "trim subject \<noteq> []"
    and "map_of kvs (str ''email'') = Some (JString address)" and "trim address \<noteq> []"
    and "map_of kvs (str ''exp'') = Some (JNumber (Finite n 0))"
    and "\<bar>n\<bar> \<le> 8640000000000"
  shows "\<exists>claims. snd (parseToken now token) = Inr claims
           \<and> sub claims = subject \<and> email claims = address
           \<and> exp claims = Some (Finite n 0)"
proof -
  have "validTime (times1000 (Finite n 0))"
    using assms(8) by (rule times1000_whole)
  with assms(7)
  have "\<not> (\<exists>d. map_of kvs (str ''exp'') = Some (JNumber d)
              \<and> number_less d now \<and> \<not> validTime (times1000 d))"
    by auto
  then obtain logged where "expiryCheck now (JObject kvs) = Inr logged"
    unfolding expiryCheck_returns[symmetric] by blast
  then show ?thesis
    using assms(7) by (simp add: parseToken_object[OF assms(1-6)] numberOf_def)
qed

text \<open>
  The payload of this token is
  \<^verbatim>\<open>{"sub":"user-123","email":"test@example.com","exp":1699996400}\<close>, expired for an hour
  when the clock reads 1700000000.
\<close>

theorem parseToken_whole_exp_accepted_witness:
  "number_less (Finite 1699996400 0) 1700000000
   \<and> (\<exists>claims.
         snd (parseToken 1700000000 (str ''hdr.eyJzdWIiOiJ1c2VyLTEyMyIsImVtYWlsIjoidGVzdEBleGFtcGxlLmNvbSIsImV4cCI6MTY5OTk5NjQwMH0.sig''))
           = Inr claims
         \<and> sub claims = str ''user-123'' \<and> email claims = str ''test@example.com''
         \<and> exp claims = Some (Finite 1699996400 0))"
proof -
  let ?kvs = "[(str ''sub'', JString (str ''user-123'')),
               (str ''email'', JString (str ''test@example.com'')),
               (str ''exp'', JNumber (Finite 1699996400 0))]"
  have parts: "split 46 (str ''hdr.eyJzdWIiOiJ1c2VyLTEyMyIsImVtYWlsIjoidGVzdEBleGFtcGxlLmNvbSIsImV4cCI6MTY5OTk5NjQwMH0.sig'')
     = [str ''hdr'', str ''eyJzdWIiOiJ1c2VyLTEyMyIsImVtYWlsIjoidGVzdEBleGFtcGxlLmNvbSIsImV4cCI6MTY5OTk5NjQwMH0'', str ''sig'']"
    by code_simp
  have obj: "JSON_parse (decodePayload (str ''eyJzdWIiOiJ1c2VyLTEyMyIsImVtYWlsIjoidGVzdEBleGFtcGxlLmNvbSIsImV4cCI6MTY5OTk5NjQwMH0''))
     = Some (JObject ?kvs)"
    by code_simp
  have sub: "map_of ?kvs (str ''sub'') = Some (JString (str ''user-123''))" by code_simp
  have email: "map_of ?kvs (str ''email'') = Some (JString (str ''test@example.com''))"
    by code_simp
  have expiry: "map_of ?kvs (str ''exp'') = Some (JNumber (Finite 1699996400 0))"
    by code_simp
  have t1: "trim (str ''user-123'') \<noteq> []" by code_simp
  have t2: "trim (str ''test@example.com'') \<noteq> []" by code_simp
  have range: "\<bar>1699996400::int\<bar> \<le> 8640000000000" by simp
  have past: "number_less (Finite 1699996400 0) 1700000000" by simp
  from parseToken_whole_exp_accepted[OF parts obj sub t1 email t2 expiry range, of 1700000000]
    past
  show ?thesis by blast
qed

text \<open>
  Whether \<^verbatim>\<open>parseToken\<close> accepts a token with a payload object, and with which \<^verbatim>\<open>sub\<close>,
  \<^verbatim>\<open>email\<close> and \<^verbatim>\<open>exp\<close>, does not depend on the members \<^verbatim>\<open>roles\<close> and \<^verbatim>\<open>iat\<close>: two
  payload objects that agree on every other member are both accepted, with the same
  \<^verbatim>\<open>sub\<close>, \<^verbatim>\<open>email\<close> and \<^verbatim>\<open>exp\<close>, or both rejected with the same exception.
\<close>

theorem parseToken_optional_claims_irrelevant:
  assumes "split 46 token = [h, p, s]" and "split 46 token' = [h', p', s']"
    and "JSON_parse (decodePayload p) = Some (JObject kvs)"
    and "JSON_parse (decodePayload p') = Some (JObject kvs')"
    and "\<forall>name. name \<noteq> str ''roles'' \<and> name \<noteq> str ''iat''
            \<longrightarrow> map_of kvs name = map_of kvs' name"
  shows "case snd (parseToken now token) of
           Inl error \<Rightarrow> snd (parseToken now token') = Inl error
         | Inr claims \<Rightarrow>
             (\<exists>claims'. snd (parseToken now token') = Inr claims'
                \<and> sub claims' = sub claims \<and> email claims' = email claims
                \<and> exp claims' = exp claims)"
proof -
  have names: "str ''sub'' \<noteq> str ''roles''" "str ''sub'' \<noteq> str ''iat''"
    "str ''email'' \<noteq> str ''roles''" "str ''email'' \<noteq> str ''iat''"
    "str ''exp'' \<noteq> str ''roles''" "str ''exp'' \<noteq> str ''iat''"
    by (simp_all add: str_def)
  with assms(5) have same: "map_of kvs (str ''sub'') = map_of kvs' (str ''sub'')"
    "map_of kvs (str ''email'') = map_of kvs' (str ''email'')"
    "map_of kvs (str ''exp'') = map_of kvs' (str ''exp'')"
    by blast+
  then have check: "expiryCheck now (JObject kvs) = expiryCheck now (JObject kvs')"
    by (simp add: expiryCheck_def)
  show ?thesis
    using assms(1-4) same check
    by (simp add: parseToken_def Let_def split_beta split: sum.splits)
qed

text \<open>
  The payloads of these tokens are \<^verbatim>\<open>{"sub":"u1","email":"u1@x.io"}\<close> and
  \<^verbatim>\<open>{"sub":"u1","email":"u1@x.io","roles":7,"iat":"soon"}\<close>.
\<close>

theorem parseToken_optional_claims_irrelevant_witness:
  "(\<exists>claims. snd (parseToken 0 (str ''hdr.eyJzdWIiOiJ1MSIsImVtYWlsIjoidTFAeC5pbyJ9.sig''))
                = Inr claims)
   \<and> (\<exists>claims'.
         snd (parseToken 0
               (str ''hdr.eyJzdWIiOiJ1MSIsImVtYWlsIjoidTFAeC5pbyIsInJvbGVzIjo3LCJpYXQiOiJzb29uIn0.sig''))
           = Inr claims'
         \<and> sub claims' = str ''u1'' \<and> email claims' = str ''u1@x.io'')"
proof -
  let ?p = "str ''eyJzdWIiOiJ1MSIsImVtYWlsIjoidTFAeC5pbyJ9''"
  let ?p' = "str ''eyJzdWIiOiJ1MSIsImVtYWlsIjoidTFAeC5pbyIsInJvbGVzIjo3LCJpYXQiOiJzb29uIn0''"
  let ?kvs = "[(str ''sub'', JString (str ''u1'')), (str ''email'', JString (str ''u1@x.io''))]"
  let ?kvs' = "[(str ''sub'', JString (str ''u1'')), (str ''email'', JString (str ''u1@x.io'')),
                (str ''roles'', JNumber (Finite 7 0)), (str ''iat'', JString (str ''soon''))]"
  let ?claims = "\<lparr>sub = str ''u1'', email = str ''u1@x.io'', roles = [], exp = None, iat = None\<rparr>"
  have parts: "split 46 (str ''hdr.eyJzdWIiOiJ1MSIsImVtYWlsIjoidTFAeC5pbyJ9.sig'')
                 = [str ''hdr'', ?p, str ''sig'']"
    by code_simp
  have parts': "split 46
      (str ''hdr.eyJzdWIiOiJ1MSIsImVtYWlsIjoidTFAeC5pbyIsInJvbGVzIjo3LCJpYXQiOiJzb29uIn0.sig'')
                 = [str ''hdr'', ?p', str ''sig'']"
    by code_simp
  have obj: "JSON_parse (decodePayload ?p) = Some (JObject ?kvs)" by code_simp
  have obj': "JSON_parse (decodePayload ?p') = Some (JObject ?kvs')" by code_simp
  have agree: "\<forall>name. name \<noteq> str ''roles'' \<and> name \<noteq> str ''iat''
                 \<longrightarrow> map_of ?kvs name = map_of ?kvs' name"
    by simp
  have run: "snd (parseToken 0 (str ''hdr.eyJzdWIiOiJ1MSIsImVtYWlsIjoidTFAeC5pbyJ9.sig''))
               = Inr ?claims"
    by code_simp
  from parseToken_optional_claims_irrelevant[OF parts parts' obj obj' agree, of 0] run
  have "\<exists>claims'.
         snd (parseToken 0
               (str ''hdr.eyJzdWIiOiJ1MSIsImVtYWlsIjoidTFAeC5pbyIsInJvbGVzIjo3LCJpYXQiOiJzb29uIn0.sig''))
           = Inr claims'
         \<and> sub claims' = str ''u1'' \<and> email claims' = str ''u1@x.io''"
    by auto
  with run show ?thesis by blast
qed

section \<open>Properties of the authentication guard\<close>

text \<open>
  C10. Whenever \<^verbatim>\<open>AuthGuard.canActivate\<close> throws (no header, an empty header, a scheme
  other than \<^verbatim>\<open>Bearer\<close>, an empty token, or a token that \<^verbatim>\<open>parseToken\<close> rejects) it
  leaves the request as it was: a request that held no identity still holds none, so
  \<^verbatim>\<open>getUserClaims\<close> returns null and \<^verbatim>\<open>@User\<close> yields undefined, for the whole record
  and for every field. The identity is set only when the guard returns, and it is then
  the claims \<^verbatim>\<open>parseToken\<close> returned for the trimmed text after \<^verbatim>\<open>Bearer \<close>.
\<close>

theorem AuthGuard_failure_leaves_slot_unset:
  assumes "user req = None"
  shows "(case AuthGuard_canActivate now req of
           (req', logged, Inl error) \<Rightarrow>
             req' = req \<and> user req' = None
             \<and> getUserClaims req' = None \<and> GetUserClaims req' = None
             \<and> User None req' = Undefined \<and> (\<forall>key. User (Some key) req' = Undefined)
         | (req', logged, Inr ok) \<Rightarrow>
             (\<exists>header claims.
                authorization req = Some header
                \<and> startsWith header (str ''Bearer '')
                \<and> snd (parseToken now (trim (substring header 7))) = Inr claims
                \<and> req' = req\<lparr>user := Some claims\<rparr>
                \<and> getUserClaims req' = Some claims))
       \<and> ((\<exists>error. snd (snd (AuthGuard_canActivate now req)) = Inl error)
            \<longleftrightarrow> (authorization req = None
                 \<or> (\<exists>header. authorization req = Some header
                       \<and> (header = [] \<or> \<not> startsWith header (str ''Bearer '')
                            \<or> trim (substring header 7) = []
                            \<or> (\<exists>error. snd (parseToken now (trim (substring header 7)))
                                          = Inl error)))))"
proof -
  have len: "length (str ''Bearer '') = 7" by (simp add: str_def)
  have outcome: "case AuthGuard_canActivate now req of
           (req', logged, Inl error) \<Rightarrow>
             req' = req \<and> user req' = None
             \<and> getUserClaims req' = None \<and> GetUserClaims req' = None
             \<and> User None req' = Undefined \<and> (\<forall>key. User (Some key) req' = Undefined)
         | (req', logged, Inr ok) \<Rightarrow>
             (\<exists>header claims.
                authorization req = Some header
                \<and> startsWith header (str ''Bearer '')
                \<and> snd (parseToken now (trim (substring header 7))) = Inr claims
                \<and> req' = req\<lparr>user := Some claims\<rparr>
                \<and> getUserClaims req' = Some claims)"
    using assms
    by (auto simp: AuthGuard_canActivate_def Let_def len getUserClaims_def GetUserClaims_def
          User_def split: option.splits sum.splits prod.splits)
  have paths: "(\<exists>error. snd (snd (AuthGuard_canActivate now req)) = Inl error)
            \<longleftrightarrow> (authorization req = None
                 \<or> (\<exists>header. authorization req = Some header
                       \<and> (header = [] \<or> \<not> startsWith header (str ''Bearer '')
                            \<or> trim (substring header 7) = []
                            \<or> (\<exists>error. snd (parseToken now (trim (substring header 7)))
                                          = Inl error))))"
    by (auto simp: AuthGuard_canActivate_def Let_def len
          split: option.splits sum.splits prod.splits)
  from outcome paths show ?thesis by (rule conjI)
qed

text \<open>A header whose token has two segments: the guard throws and the request is unchanged.\<close>

theorem AuthGuard_failure_leaves_slot_unset_witness:
  "user \<lparr>authorization = Some (str ''Bearer invalid.token''), user = None\<rparr> = None
   \<and> AuthGuard_canActivate 0 \<lparr>authorization = Some (str ''Bearer invalid.token''), user = None\<rparr>
       = (\<lparr>authorization = Some (str ''Bearer invalid.token''), user = None\<rparr>,
          [(Warn, ''Token validation failed: invalid format (expected 3 parts)''),
           (Warn, ''Authentication failed: token parsing error'')],
          Inl (InvalidTokenException msg_parts))
   \<and> getUserClaims \<lparr>authorization = Some (str ''Bearer invalid.token''), user = None\<rparr> = None
   \<and> User (Some Key_email)
        \<lparr>authorization = Some (str ''Bearer invalid.token''), user = None\<rparr> = Undefined"
proof -
  let ?req = "\<lparr>authorization = Some (str ''Bearer invalid.token''), user = None\<rparr>"
  have unset: "user ?req = None" by simp
  have run: "AuthGuard_canActivate 0 ?req
       = (?req,
          [(Warn, ''Token validation failed: invalid format (expected 3 parts)''),
           (Warn, ''Authentication failed: token parsing error'')],
          Inl (InvalidTokenException msg_parts))"
    by code_simp
  from AuthGuard_failure_leaves_slot_unset[OF unset, of 0] run
  have "getUserClaims ?req = None \<and> (\<forall>key. User (Some key) ?req = Undefined)"
    by simp
  with unset run show ?thesis by blast
qed

section \<open>Properties of the role guards\<close>

text \<open>
  C2. For every non-empty requirement of \<^verbatim>\<open>RequireRolesGuard\<close> and every identity, the
  guard allows exactly when some required role is equal to one of the identity's roles;
  otherwise it throws, and the exception names the full list of required roles.
\<close>

theorem RequireRolesGuard_any_of:
  assumes "requiredRoles \<noteq> []" and "user req = Some u"
  shows "(snd (RequireRolesGuard_canActivate (Some requiredRoles) req) = Inr True
            \<longleftrightarrow> (\<exists>role \<in> set requiredRoles. role \<in> set (roles u)))
       \<and> (snd (RequireRolesGuard_canActivate (Some requiredRoles) req) \<noteq> Inr True
            \<longleftrightarrow> snd (RequireRolesGuard_canActivate (Some requiredRoles) req) =
               Inl (InsufficientPermissionsException
                 (str ''User lacks required role. Required one of: [''
                    @ join (str '', '') requiredRoles @ str '']'')))"
  using assms
  by (auto simp: RequireRolesGuard_canActivate_def Let_def list_ex_iff)

text \<open>An identity holding \<^verbatim>\<open>Admin\<close> is denied where \<^verbatim>\<open>admin\<close> or \<^verbatim>\<open>moderator\<close> is required.\<close>

theorem RequireRolesGuard_any_of_witness:
  "[str ''admin'', str ''moderator''] \<noteq> []
   \<and> \<not> (\<exists>role \<in> set [str ''admin'', str ''moderator'']. role \<in> set [str ''Admin''])
   \<and> snd (RequireRolesGuard_canActivate (Some [str ''admin'', str ''moderator''])
           \<lparr>authorization = None,
            user = Some \<lparr>sub = str ''u1'', email = str ''u1@x.io'', roles = [str ''Admin''],
                          exp = None, iat = None\<rparr>\<rparr>)
       = Inl (InsufficientPermissionsException
               (str ''User lacks required role. Required one of: [admin, moderator]''))"
proof -
  let ?u = "\<lparr>sub = str ''u1'', email = str ''u1@x.io'', roles = [str ''Admin''],
             exp = None, iat = None\<rparr>"
  let ?req = "\<lparr>authorization = None, user = Some ?u\<rparr>"
  have ne: "[str ''admin'', str ''moderator''] \<noteq> []" by simp
  have usr: "user ?req = Some ?u" by simp
  have none: "\<not> (\<exists>role \<in> set [str ''admin'', str ''moderator'']. role \<in> set (roles ?u))"
    by (simp add: str_def)
  have msg: "str ''User lacks required role. Required one of: [''
               @ join (str '', '') [str ''admin'', str ''moderator''] @ str '']''
             = str ''User lacks required role. Required one of: [admin, moderator]''"
    by (simp add: str_def)
  from RequireRolesGuard_any_of[OF ne usr] none
  have "snd (RequireRolesGuard_canActivate (Some [str ''admin'', str ''moderator'']) ?req) =
          Inl (InsufficientPermissionsException
                 (str ''User lacks required role. Required one of: [''
                    @ join (str '', '') [str ''admin'', str ''moderator''] @ str '']''))"
    by blast
  then have "snd (RequireRolesGuard_canActivate (Some [str ''admin'', str ''moderator'']) ?req) =
          Inl (InsufficientPermissionsException
                 (str ''User lacks required role. Required one of: [admin, moderator]''))"
    by (simp only: msg)
  moreover from none
  have "\<not> (\<exists>role \<in> set [str ''admin'', str ''moderator'']. role \<in> set [str ''Admin''])"
    by simp
  ultimately show ?thesis using ne by blast
qed

text \<open>
  C3. For every non-empty requirement of \<^verbatim>\<open>RequireAllRolesGuard\<close> and every identity,
  the guard allows exactly when every required role is equal to one of the identity's
  roles; otherwise it throws, and the exception names exactly the required roles that
  the identity lacks, in the order of the requirement.
\<close>

theorem RequireAllRolesGuard_all_of:
  assumes "requiredRoles \<noteq> []" and "user req = Some u"
  shows "(snd (RequireAllRolesGuard_canActivate (Some requiredRoles) req) = Inr True
            \<longleftrightarrow> (\<forall>role \<in> set requiredRoles. role \<in> set (roles u)))
       \<and> (snd (RequireAllRolesGuard_canActivate (Some requiredRoles) req) \<noteq> Inr True
            \<longleftrightarrow> snd (RequireAllRolesGuard_canActivate (Some requiredRoles) req) =
               Inl (InsufficientPermissionsException
                 (str ''User lacks required roles. Missing: [''
                    @ join (str '', '')
                        (filter (\<lambda>role. role \<notin> set (roles u)) requiredRoles)
                    @ str '']'')))"
  using assms
  by (auto simp: RequireAllRolesGuard_canActivate_def Let_def filter_empty_conv)

text \<open>
  An identity holding only \<^verbatim>\<open>admin\<close> is denied where \<^verbatim>\<open>superuser\<close>, \<^verbatim>\<open>admin\<close> and
  \<^verbatim>\<open>auditor\<close> are required, and the two missing roles are named in that order.
\<close>

theorem RequireAllRolesGuard_all_of_witness:
  "[str ''superuser'', str ''admin'', str ''auditor''] \<noteq> []
   \<and> filter (\<lambda>role. role \<notin> set [str ''admin''])
        [str ''superuser'', str ''admin'', str ''auditor'']
       = [str ''superuser'', str ''auditor'']
   \<and> snd (RequireAllRolesGuard_canActivate
           (Some [str ''superuser'', str ''admin'', str ''auditor''])
           \<lparr>authorization = None,
            user = Some \<lparr>sub = str ''u1'', email = str ''u1@x.io'', roles = [str ''admin''],
                          exp = None, iat = None\<rparr>\<rparr>)
       = Inl (InsufficientPermissionsException
               (str ''User lacks required roles. Missing: [superuser, auditor]''))"
proof -
  let ?u = "\<lparr>sub = str ''u1'', email = str ''u1@x.io'', roles = [str ''admin''],
             exp = None, iat = None\<rparr>"
  let ?req = "\<lparr>authorization = None, user = Some ?u\<rparr>"
  let ?required = "[str ''superuser'', str ''admin'', str ''auditor'']"
  have ne: "?required \<noteq> []" by simp
  have usr: "user ?req = Some ?u" by simp
  have missing: "filter (\<lambda>role. role \<notin> set [str ''admin'']) ?required
                   = [str ''superuser'', str ''auditor'']"
    by (simp add: str_def)
  have lacking: "\<not> (\<forall>role \<in> set ?required. role \<in> set (roles ?u))"
    by (simp add: str_def)
  have msg: "str ''User lacks required roles. Missing: [''
               @ join (str '', '') [str ''superuser'', str ''auditor''] @ str '']''
             = str ''User lacks required roles. Missing: [superuser, auditor]''"
    by (simp add: str_def)
  from RequireAllRolesGuard_all_of[OF ne usr] lacking
  have "snd (RequireAllRolesGuard_canActivate (Some ?required) ?req) =
          Inl (InsufficientPermissionsException
                 (str ''User lacks required roles. Missing: [''
                    @ join (str '', '') (filter (\<lambda>role. role \<notin> set (roles ?u)) ?required)
                    @ str '']''))"
    by blast
  then have "snd (RequireAllRolesGuard_canActivate (Some ?required) ?req) =
          Inl (InsufficientPermissionsException
                 (str ''User lacks required roles. Missing: [''
                    @ join (str '', '') (filter (\<lambda>role. role \<notin> set [str ''admin'']) ?required)
                    @ str '']''))"
    by simp
  then have "snd (RequireAllRolesGuard_canActivate (Some ?required) ?req) =
          Inl (InsufficientPermissionsException
                 (str ''User lacks required roles. Missing: [superuser, auditor]''))"
    by (simp only: missing msg)
  with ne missing show ?thesis by blast
qed

text \<open>
  C4. With an empty list of required roles both guards allow, whatever the request
  holds: an identity with roles, an identity with no roles, or no identity.
\<close>

theorem empty_requirement_allows:
  "snd (RequireRolesGuard_canActivate (Some []) req) = Inr True
   \<and> snd (RequireAllRolesGuard_canActivate (Some []) req) = Inr True"
  by (simp add: RequireRolesGuard_canActivate_def RequireAllRolesGuard_canActivate_def)

text \<open>An identity with no roles passes both guards when nothing is required.\<close>

theorem empty_requirement_allows_witness:
  "snd (RequireRolesGuard_canActivate (Some [])
          \<lparr>authorization = None,
           user = Some \<lparr>sub = str ''u1'', email = str ''u1@x.io'', roles = [],
                         exp = None, iat = None\<rparr>\<rparr>) = Inr True
   \<and> snd (RequireAllRolesGuard_canActivate (Some [])
          \<lparr>authorization = None,
           user = Some \<lparr>sub = str ''u1'', email = str ''u1@x.io'', roles = [],
                         exp = None, iat = None\<rparr>\<rparr>) = Inr True"
  by (rule empty_requirement_allows)

text \<open>
  C5, as the guards have it. For every non-empty list of required roles, a request that
  holds no identity makes both guards throw the exception with the message
  \<^verbatim>\<open>User must be authenticated to check roles\<close>; this is never the outcome for an identity
  that is present and has no roles, and it is never an allow. With an empty list of
  required roles the guards allow before they look at the request.
\<close>

theorem no_identity_rejected:
  assumes "requiredRoles \<noteq> []" and "user req = None"
  shows "snd (RequireRolesGuard_canActivate (Some requiredRoles) req) =
           Inl (InsufficientPermissionsException
                  (str ''User must be authenticated to check roles''))
       \<and> snd (RequireAllRolesGuard_canActivate (Some requiredRoles) req) =
           Inl (InsufficientPermissionsException
                  (str ''User must be authenticated to check roles''))
       \<and> snd (RequireRolesGuard_canActivate (Some requiredRoles) req) \<noteq>
           snd (RequireRolesGuard_canActivate (Some requiredRoles)
                  (req\<lparr>user := Some (u\<lparr>roles := []\<rparr>)\<rparr>))
       \<and> snd (RequireAllRolesGuard_canActivate (Some requiredRoles) req) \<noteq>
           snd (RequireAllRolesGuard_canActivate (Some requiredRoles)
                  (req\<lparr>user := Some (u\<lparr>roles := []\<rparr>)\<rparr>))
       \<and> snd (RequireRolesGuard_canActivate (Some []) req) = Inr True
       \<and> snd (RequireAllRolesGuard_canActivate (Some []) req) = Inr True"
proof -
  have differ: "str ''User must be authenticated to check roles'' \<noteq>
                  str ''User lacks required role. Required one of: ['' @ x"
               "str ''User must be authenticated to check roles'' \<noteq>
                  str ''User lacks required roles. Missing: ['' @ x" for x
    by (simp_all add: str_def)
  from assms differ show ?thesis
    by (simp add: RequireRolesGuard_canActivate_def RequireAllRolesGuard_canActivate_def
          Let_def filter_empty_conv)
qed

theorem no_identity_rejected_witness:
  "[str ''admin''] \<noteq> []
   \<and> user \<lparr>authorization = None, user = None\<rparr> = None
   \<and> snd (RequireRolesGuard_canActivate (Some [str ''admin''])
            \<lparr>authorization = None, user = None\<rparr>) =
        Inl (InsufficientPermissionsException
               (str ''User must be authenticated to check roles''))
   \<and> snd (RequireAllRolesGuard_canActivate (Some [str ''admin''])
            \<lparr>authorization = None, user = None\<rparr>) =
        Inl (InsufficientPermissionsException
               (str ''User must be authenticated to check roles''))"
proof -
  have ne: "[str ''admin''] \<noteq> []" by simp
  have none: "user \<lparr>authorization = None, user = None\<rparr> = None" by simp
  from no_identity_rejected[OF ne none] ne none show ?thesis by simp
qed

text \<open>
  With nothing required and no identity in the request, both guards allow: the claim
  as first stated fails here.
\<close>

theorem no_identity_empty_requirement_allowed:
  "snd (RequireRolesGuard_canActivate (Some []) \<lparr>authorization = None, user = None\<rparr>)
     = Inr True
   \<and> snd (RequireRolesGuard_canActivate (Some []) \<lparr>authorization = None, user = None\<rparr>)
     \<noteq> Inl (InsufficientPermissionsException
             (str ''User must be authenticated to check roles''))
   \<and> snd (RequireAllRolesGuard_canActivate (Some []) \<lparr>authorization = None, user = None\<rparr>)
     = Inr True
   \<and> snd (RequireAllRolesGuard_canActivate (Some []) \<lparr>authorization = None, user = None\<rparr>)
     \<noteq> Inl (InsufficientPermissionsException
             (str ''User must be authenticated to check roles''))"
  by (simp add: RequireRolesGuard_canActivate_def RequireAllRolesGuard_canActivate_def)

section \<open>The response of a rejected request\<close>

lemma parseToken_exception:
  "parseToken now token = (logged, Inl e)
     \<Longrightarrow> (\<exists>m. e = InvalidTokenException m) \<or> e = RangeError (str ''Invalid time value'')"
  by (auto simp: parseToken_def Let_def split_beta dest: expiryCheck_thrown
        split: option.splits if_splits sum.splits)

text \<open>
  What \<^verbatim>\<open>AuthGuard\<close> throws is an \<^verbatim>\<open>InvalidTokenException\<close>, answered with status 401 and
  the error code \<^verbatim>\<open>INVALID_TOKEN\<close>, or the \<^verbatim>\<open>RangeError\<close> of the expiry date, which is no
  HTTP exception and carries no status; whatever the role guards throw, for a missing
  identity or for missing roles, is answered with status 403 and
  \<^verbatim>\<open>INSUFFICIENT_PERMISSIONS\<close>.
\<close>

theorem exception_status:
  "(\<forall>req' logged e. AuthGuard_canActivate now req = (req', logged, Inl e)
      \<longrightarrow> (statusCode e = Some 401 \<and> error_code e = Some ''INVALID_TOKEN'')
          \<or> (e = RangeError (str ''Invalid time value'') \<and> statusCode e = None))
   \<and> (\<forall>e. snd (RequireRolesGuard_canActivate reflected req) = Inl e
      \<longrightarrow> statusCode e = Some 403 \<and> error_code e = Some ''INSUFFICIENT_PERMISSIONS'')
   \<and> (\<forall>e. snd (RequireAllRolesGuard_canActivate reflected req) = Inl e
      \<longrightarrow> statusCode e = Some 403 \<and> error_code e = Some ''INSUFFICIENT_PERMISSIONS'')"
proof (intro conjI allI impI)
  fix req' logged e
  assume thrown: "AuthGuard_canActivate now req = (req', logged, Inl e)"
  have "(\<exists>m. e = InvalidTokenException m) \<or> e = RangeError (str ''Invalid time value'')"
    using thrown
    by (auto simp: AuthGuard_canActivate_def Let_def dest: parseToken_exception
          split: option.splits if_splits prod.splits sum.splits)
  then show "(statusCode e = Some 401 \<and> error_code e = Some ''INVALID_TOKEN'')
          \<or> (e = RangeError (str ''Invalid time value'') \<and> statusCode e = None)"
    by auto
next
  fix e
  assume "snd (RequireRolesGuard_canActivate reflected req) = Inl e"
  then have "\<exists>m. e = InsufficientPermissionsException m"
    by (auto simp: RequireRolesGuard_canActivate_def Let_def split: option.splits if_splits)
  then show "statusCode e = Some 403" and "error_code e = Some ''INSUFFICIENT_PERMISSIONS''"
    by auto
next
  fix e
  assume "snd (RequireAllRolesGuard_canActivate reflected req) = Inl e"
  then have "\<exists>m. e = InsufficientPermissionsException m"
    by (auto simp: RequireAllRolesGuard_canActivate_def Let_def split: option.splits if_splits)
  then show "statusCode e = Some 403" and "error_code e = Some ''INSUFFICIENT_PERMISSIONS''"
    by auto
qed

text \<open>A header without the \<^verbatim>\<open>Bearer\<close> scheme, and a route that needs \<^verbatim>\<open>admin\<close> with no identity.\<close>

theorem exception_status_witness:
  "AuthGuard_canActivate 0 \<lparr>authorization = Some (str ''Basic abc''), user = None\<rparr>
     = (\<lparr>authorization = Some (str ''Basic abc''), user = None\<rparr>,
        [(Warn, ''Authentication failed: invalid Authorization header format'')],
        Inl (InvalidTokenException (str ''Authorization header must use Bearer scheme'')))
   \<and> statusCode (InvalidTokenException (str ''Authorization header must use Bearer scheme''))
     = Some 401
   \<and> snd (RequireRolesGuard_canActivate (Some [str ''admin''])
            \<lparr>authorization = None, user = None\<rparr>)
     = Inl (InsufficientPermissionsException (str ''User must be authenticated to check roles''))
   \<and> statusCode (InsufficientPermissionsException
                    (str ''User must be authenticated to check roles'')) = Some 403"
proof -
  let ?req = "\<lparr>authorization = Some (str ''Basic abc''), user = None\<rparr>"
  have run: "AuthGuard_canActivate 0 ?req
     = (?req, [(Warn, ''Authentication failed: invalid Authorization header format'')],
        Inl (InvalidTokenException (str ''Authorization header must use Bearer scheme'')))"
    by code_simp
  have denied: "snd (RequireRolesGuard_canActivate (Some [str ''admin''])
            \<lparr>authorization = None, user = None\<rparr>)
     = Inl (InsufficientPermissionsException (str ''User must be authenticated to check roles''))"
    by code_simp
  from exception_status[of 0 ?req "Some [str ''admin'']"] run
  have first: "statusCode (InvalidTokenException
                  (str ''Authorization header must use Bearer scheme'')) = Some 401"
    by auto
  from exception_status[of 0 "\<lparr>authorization = None, user = None\<rparr>" "Some [str ''admin'']"] denied
  have second: "statusCode (InsufficientPermissionsException
                    (str ''User must be authenticated to check roles'')) = Some 403"
    by blast
  from run first denied second show ?thesis by blast
qed


end
